theory Spec2Isabelle
  imports Complex_Main "HOL-Library.AList"
begin

section \<open>Values, exceptions, messages and results\<close>

text \<open>
  The receiver of \<^verbatim>\<open>taskiq/receiver/receiver.py\<close> is embedded shallowly. Python values
  that travel in a message are an algebraic datatype; \<open>PyNone\<close> is Python's \<open>None\<close>,
  which is also the value of \<open>returned\<close> before the task body has produced anything.
\<close>

datatype pyval = PyNone | PyBool bool | PyInt int | PyStr string | PyList "pyval list"

text \<open>
  The source catches with \<^verbatim>\<open>except Exception\<close> only. What is raised is therefore
  either an instance of \<open>Exception\<close> (\<open>PyException\<close>, with the name of its class) or a
  \<open>BaseException\<close> that is not an \<open>Exception\<close> (\<open>PyBaseException\<close>: \<open>SystemExit\<close>,
  \<open>KeyboardInterrupt\<close>, \<open>GeneratorExit\<close>, and \<open>asyncio.CancelledError\<close> from Python 3.8 on).
\<close>

datatype exn = PyException string | PyBaseException string

fun is_Exception :: "exn \<Rightarrow> bool" where
  "is_Exception (PyException c) = True"
| "is_Exception (PyBaseException c) = False"

text \<open>
  A dict is an association list in insertion order with unique keys: \<open>map_of d k\<close> reads
  it, \<open>k in d\<close> is \<open>map_of d k \<noteq> None\<close>, and \<open>d[k] = v\<close> is \<open>AList.update k v d\<close>
  (the value is replaced in place, or the pair is appended when the key is new).
\<close>

type_synonym py_kwargs = "(string \<times> pyval) list"

record taskiq_message =
  task_id :: string
  task_name :: string
  args :: "pyval list"
  kwargs :: py_kwargs

text \<open>
  \<open>TaskiqResult\<close>; its field \<open>log\<close> is named \<open>log_slot\<close> here (\<open>log\<close> is the logarithm
  in HOL). \<open>time()\<close> returns a float; the two readings of one call and their difference
  are reals.
\<close>

record taskiq_result =
  is_err :: bool
  log_slot :: "string option"
  return_value :: pyval
  execution_time :: real

section \<open>Collaborators\<close>

text \<open>
  A callable: \<open>iscoroutinefunction\<close> is what \<^verbatim>\<open>asyncio.iscoroutinefunction(target)\<close>
  answers, \<open>call\<close> is the outcome of \<^verbatim>\<open>target(*args, **kwargs)\<close> once awaited: the
  exception it raises or the value it returns.
\<close>

record py_callable =
  iscoroutinefunction :: bool
  call :: "pyval list \<Rightarrow> py_kwargs \<Rightarrow> exn + pyval"

text \<open>
  A middleware. A hook is \<open>None\<close> when the middleware's class does not override it
  (\<^verbatim>\<open>middleware.__class__.pre_execute != TaskiqMiddleware.pre_execute\<close> is false);
  otherwise it is the hook's outcome as a function of its arguments. \<open>pre_execute\<close>
  returns the message that replaces \<open>taskiq_msg\<close>; the return value of every other hook
  is discarded by the receiver. \<open>mw_name\<close> identifies the middleware in the trace.
  A hook is a function of its arguments: it may raise, and it does not change the
  message or the result it was given in place.
\<close>

record middleware =
  mw_name :: string
  pre_execute :: "(taskiq_message \<Rightarrow> exn + taskiq_message) option"
  post_execute :: "(taskiq_message \<Rightarrow> taskiq_result \<Rightarrow> exn + unit) option"
  post_save :: "(taskiq_message \<Rightarrow> taskiq_result \<Rightarrow> exn + unit) option"
  on_error :: "(taskiq_message \<Rightarrow> taskiq_result \<Rightarrow> exn \<Rightarrow> exn + unit) option"

text \<open>
  A \<open>DependencyGraph\<close> with the context \<^verbatim>\<open>async_ctx\<close> makes of it. The context is seeded
  with \<^verbatim>\<open>Context(message, broker)\<close>, so what \<^verbatim>\<open>resolve_kwargs()\<close> yields may depend on
  the message; \<open>close_ctx\<close> is the outcome of \<^verbatim>\<open>dep_ctx.close()\<close>.
\<close>

record dependency_graph =
  resolve_kwargs :: "taskiq_message \<Rightarrow> exn + py_kwargs"
  close_ctx :: "exn + unit"

text \<open>
  The broker as the receiver uses it: \<^verbatim>\<open>formatter.loads\<close>, \<^verbatim>\<open>available_tasks\<close> (a task
  is given by its \<open>original_func\<close>), the middlewares in registration order, and
  \<^verbatim>\<open>result_backend.set_result\<close>.
\<close>

record async_broker =
  formatter_loads :: "string \<Rightarrow> exn + taskiq_message"
  available_tasks :: "string \<rightharpoonup> py_callable"
  middlewares :: "middleware list"
  set_result :: "string \<Rightarrow> taskiq_result \<Rightarrow> exn + unit"

type_synonym signature = "string list"
type_synonym type_hints = "(string \<times> string) list"

text \<open>
  What a run depends on besides the receiver: the validation algorithm behind
  \<open>parse_params\<close> (it answers \<open>None\<close> when the arguments do not fit, and the message with
  its arguments coerced otherwise), and the two readings of \<open>time()\<close> in \<open>run_task\<close>.
\<close>

record world =
  validate :: "signature \<Rightarrow> type_hints \<Rightarrow> taskiq_message \<Rightarrow> taskiq_message option"
  time_start :: real
  time_stop :: real

record receiver =
  broker :: async_broker
  validate_params :: bool
  task_signatures :: "string \<rightharpoonup> signature"
  task_hints :: "string \<rightharpoonup> type_hints"
  dependency_graphs :: "string \<rightharpoonup> dependency_graph"
  sem :: "nat option"

section \<open>Effects: a trace of events and an outcome\<close>

datatype level = Debug | Info | Warning | Error

datatype lane = Inline | Executor

text \<open>
  Everything the receiver does to its collaborators is recorded, in order: log records
  with their level, each hook invocation with the arguments it received, the opening,
  resolution and closing of a dependency context, the call of the task body with the
  positional and named arguments it received, and the write to the result backend.
\<close>

datatype event =
    EvLog level
  | EvPreExecute string taskiq_message
  | EvOpenCtx
  | EvResolveKwargs
  | EvCall lane "pyval list" py_kwargs
  | EvCloseCtx
  | EvOnError string taskiq_message taskiq_result exn
  | EvPostExecute string taskiq_message taskiq_result
  | EvSetResult string taskiq_result
  | EvPostSave string taskiq_message taskiq_result

text \<open>
  A computation yields the events it caused and either the exception that left it
  (\<open>Inl\<close>) or its value (\<open>Inr\<close>).
\<close>

type_synonym 'a io = "event list \<times> (exn + 'a)"

definition io_return :: "'a \<Rightarrow> 'a io" where
  "io_return x = ([], Inr x)"

definition io_raise :: "exn \<Rightarrow> 'a io" where
  "io_raise e = ([], Inl e)"

definition io_emit :: "event \<Rightarrow> unit io" where
  "io_emit ev = ([ev], Inr ())"

definition io_do :: "event \<Rightarrow> (exn + 'a) \<Rightarrow> 'a io" where
  "io_do ev r = ([ev], r)"

text \<open>A call of a collaborator that leaves no event of its own.\<close>

definition io_do_quiet :: "(exn + 'a) \<Rightarrow> 'a io" where
  "io_do_quiet r = ([], r)"

definition io_bind :: "'a io \<Rightarrow> ('a \<Rightarrow> 'b io) \<Rightarrow> 'b io" where
  "io_bind m f =
     (case m of
        (t, Inl e) \<Rightarrow> (t, Inl e)
      | (t, Inr x) \<Rightarrow> (case f x of (t', r) \<Rightarrow> (t @ t', r)))"

text \<open>\<^verbatim>\<open>try: m  except Exception as exc: h(exc)\<close>: only instances of \<open>Exception\<close> are caught.\<close>

definition io_except :: "'a io \<Rightarrow> (exn \<Rightarrow> 'a io) \<Rightarrow> 'a io" where
  "io_except m h =
     (case m of
        (t, Inl e) \<Rightarrow>
          (if is_Exception e then (case h e of (t', r) \<Rightarrow> (t @ t', r)) else (t, Inl e))
      | (t, Inr x) \<Rightarrow> (t, Inr x))"

section \<open>The execution engine: \<open>run_task\<close>\<close>

text \<open>
  Modelled from the spec: \<open>parse_params\<close> (module \<^verbatim>\<open>taskiq.receiver.params_parser\<close>) is
  called by \<open>run_task\<close> and is not among the sources. The spec says of it: if parameter
  validation is enabled (a signature is passed), validate and coerce the message's
  arguments against the task's signature and type hints; a validation failure surfaces as
  an exception of a distinct "bad parameters" kind. The algorithm itself is \<open>validate\<close>.
\<close>

definition parse_params ::
  "world \<Rightarrow> signature option \<Rightarrow> type_hints \<Rightarrow> taskiq_message \<Rightarrow> taskiq_message io" where
  "parse_params w signature hints message =
     (case signature of
        None \<Rightarrow> io_return message
      | Some sg \<Rightarrow>
          (case validate w sg hints message of
             None \<Rightarrow> io_raise (PyException ''BadParams'')
           | Some message' \<Rightarrow> io_return message'))"

text \<open>
  Lines 182 to 184, the loop over \<^verbatim>\<open>dep_kwargs.items()\<close>:
  \<^verbatim>\<open>if key not in message.kwargs: message.kwargs[key] = val\<close>.
\<close>

fun inject_dep_kwargs :: "py_kwargs \<Rightarrow> py_kwargs \<Rightarrow> py_kwargs" where
  "inject_dep_kwargs [] message_kwargs = message_kwargs"
| "inject_dep_kwargs ((key, val) # rest) message_kwargs =
     inject_dep_kwargs rest
       (if map_of message_kwargs key = None then AList.update key val message_kwargs
        else message_kwargs)"

text \<open>
  Lines 169 to 184. With a dependency graph, the context is made, the dependencies are
  resolved (an exception of \<^verbatim>\<open>resolve_kwargs\<close> leaves \<open>run_task\<close> here) and injected into
  the message's \<open>kwargs\<close>, in place: the message returned is the caller's message after
  the mutation. \<open>dep_ctx\<close> is \<open>None\<close> without a graph. The tests \<^verbatim>\<open>if dependency_graph:\<close>
  and \<^verbatim>\<open>if dep_ctx:\<close> are read as tests for \<open>None\<close>. The update of
  \<^verbatim>\<open>broker.custom_dependency_context\<close> (lines 172 to 178) only feeds the resolution,
  which is a function of the message here.
\<close>

definition resolve_dependencies ::
  "dependency_graph option \<Rightarrow> taskiq_message \<Rightarrow> (dependency_graph option \<times> taskiq_message) io" where
  "resolve_dependencies dependency_graph message =
     (case dependency_graph of
        None \<Rightarrow> io_return (None, message)
      | Some g \<Rightarrow>
          io_bind (io_emit EvOpenCtx) (\<lambda>_.
          io_bind (io_do EvResolveKwargs (resolve_kwargs g message)) (\<lambda>dep_kwargs.
          io_return (Some g, message\<lparr>kwargs := inject_dep_kwargs dep_kwargs (kwargs message)\<rparr>))))"

text \<open>
  Lines 187 to 206: the body is awaited inline when it is a coroutine function and run
  in the executor (through \<open>_run_sync\<close>) otherwise, with \<^verbatim>\<open>*message.args, **message.kwargs\<close>
  either way. An \<open>Exception\<close> is caught, kept in \<open>found_exception\<close> and logged as an
  error; \<open>returned\<close> then still is \<open>None\<close>.
\<close>

definition execute_target :: "py_callable \<Rightarrow> taskiq_message \<Rightarrow> (pyval \<times> exn option) io" where
  "execute_target target message =
     io_except
       (io_bind
          (io_do (EvCall (if iscoroutinefunction target then Inline else Executor)
                    (args message) (kwargs message))
             (call target (args message) (kwargs message)))
          (\<lambda>returned. io_return (returned, None)))
       (\<lambda>exc. io_bind (io_emit (EvLog Error)) (\<lambda>_. io_return (PyNone, Some exc)))"

text \<open>Lines 221 to 229: the middlewares that override \<open>on_error\<close>, in list order.\<close>

fun on_error_loop ::
  "middleware list \<Rightarrow> taskiq_message \<Rightarrow> taskiq_result \<Rightarrow> exn \<Rightarrow> unit io" where
  "on_error_loop [] message result found_exception = io_return ()"
| "on_error_loop (middleware # rest) message result found_exception =
     (case on_error middleware of
        None \<Rightarrow> on_error_loop rest message result found_exception
      | Some hook \<Rightarrow>
          io_bind
            (io_do (EvOnError (mw_name middleware) message result found_exception)
               (hook message result found_exception))
            (\<lambda>_. on_error_loop rest message result found_exception))"

text \<open>
  Lines 163 to 167: the signature is looked up only when \<open>validate_params\<close> is set, the
  hints are \<^verbatim>\<open>self.task_hints.get(message.task_name) or {}\<close>, and \<open>parse_params\<close> works on
  the message in place.
\<close>

definition checked_message :: "world \<Rightarrow> receiver \<Rightarrow> taskiq_message \<Rightarrow> taskiq_message io" where
  "checked_message w self message =
     (let signature =
            (if validate_params self then task_signatures self (task_name message) else None)
      in parse_params w signature
           (case task_hints self (task_name message) of None \<Rightarrow> [] | Some h \<Rightarrow> h) message)"

text \<open>Lines 209 and 210: \<^verbatim>\<open>if dep_ctx: await dep_ctx.close()\<close>.\<close>

definition close_dep_ctx :: "dependency_graph option \<Rightarrow> unit io" where
  "close_dep_ctx dep_ctx =
     (case dep_ctx of None \<Rightarrow> io_return () | Some g \<Rightarrow> io_do EvCloseCtx (close_ctx g))"

text \<open>
  \<open>run_task\<close>, lines 137 to 231. Its value is the message as the call leaves it (the
  object the caller passed, mutated in place) together with the \<open>TaskiqResult\<close> returned.
  The execution time is the difference of the two readings of \<open>time()\<close>.
\<close>

definition run_task ::
  "world \<Rightarrow> receiver \<Rightarrow> py_callable \<Rightarrow> taskiq_message \<Rightarrow> (taskiq_message \<times> taskiq_result) io" where
  "run_task w self target message =
     (let dependency_graph = dependency_graphs self (task_name message) in
      io_bind (checked_message w self message) (\<lambda>message.
      io_bind (resolve_dependencies dependency_graph message) (\<lambda>(dep_ctx, message).
      io_bind (execute_target target message) (\<lambda>(returned, found_exception).
      io_bind (close_dep_ctx dep_ctx) (\<lambda>_.
      let result =
            \<lparr>is_err = (found_exception \<noteq> None), log_slot = None, return_value = returned,
             execution_time = time_stop w - time_start w\<rparr>
      in
      io_bind
        (case found_exception of
           None \<Rightarrow> io_return ()
         | Some exc \<Rightarrow> on_error_loop (middlewares (broker self)) message result exc)
        (\<lambda>_.
      io_return (message, result)))))))"

section \<open>The dispatch pipeline: \<open>callback\<close>\<close>

text \<open>Lines 103 to 109: \<open>taskiq_msg\<close> is rebound to what each overriding hook returns.\<close>

fun pre_execute_loop :: "middleware list \<Rightarrow> taskiq_message \<Rightarrow> taskiq_message io" where
  "pre_execute_loop [] taskiq_msg = io_return taskiq_msg"
| "pre_execute_loop (middleware # rest) taskiq_msg =
     (case pre_execute middleware of
        None \<Rightarrow> pre_execute_loop rest taskiq_msg
      | Some hook \<Rightarrow>
          io_bind (io_do (EvPreExecute (mw_name middleware) taskiq_msg) (hook taskiq_msg))
            (\<lambda>taskiq_msg. pre_execute_loop rest taskiq_msg))"

text \<open>Lines 120 to 122.\<close>

fun post_execute_loop :: "middleware list \<Rightarrow> taskiq_message \<Rightarrow> taskiq_result \<Rightarrow> unit io" where
  "post_execute_loop [] taskiq_msg result = io_return ()"
| "post_execute_loop (middleware # rest) taskiq_msg result =
     (case post_execute middleware of
        None \<Rightarrow> post_execute_loop rest taskiq_msg result
      | Some hook \<Rightarrow>
          io_bind (io_do (EvPostExecute (mw_name middleware) taskiq_msg result) (hook taskiq_msg result))
            (\<lambda>_. post_execute_loop rest taskiq_msg result))"

text \<open>Lines 125 to 127.\<close>

fun post_save_loop :: "middleware list \<Rightarrow> taskiq_message \<Rightarrow> taskiq_result \<Rightarrow> unit io" where
  "post_save_loop [] taskiq_msg result = io_return ()"
| "post_save_loop (middleware # rest) taskiq_msg result =
     (case post_save middleware of
        None \<Rightarrow> post_save_loop rest taskiq_msg result
      | Some hook \<Rightarrow>
          io_bind (io_do (EvPostSave (mw_name middleware) taskiq_msg result) (hook taskiq_msg result))
            (\<lambda>_. post_save_loop rest taskiq_msg result))"

text \<open>
  Lines 123 to 135: the write to the result backend and the \<open>post_save\<close> hooks stand in
  one \<open>try\<close>; an \<open>Exception\<close> of either is logged and raised again only with \<open>raise_err\<close>.
\<close>

definition save_result :: "receiver \<Rightarrow> bool \<Rightarrow> taskiq_message \<Rightarrow> taskiq_result \<Rightarrow> unit io" where
  "save_result self raise_err taskiq_msg result =
     io_except
       (io_bind
          (io_do (EvSetResult (task_id taskiq_msg) result)
             (set_result (broker self) (task_id taskiq_msg) result))
          (\<lambda>_. post_save_loop (middlewares (broker self)) taskiq_msg result))
       (\<lambda>exc. io_bind (io_emit (EvLog Error)) (\<lambda>_.
          if raise_err then io_raise exc else io_return ()))"

text \<open>
  Lines 99 to 135, what \<open>callback\<close> does with a decoded message of a registered task.
  The task is looked up again under the name the \<open>pre_execute\<close> hooks left in the message;
  a name that is not registered raises \<open>KeyError\<close> there.
\<close>

definition dispatch :: "world \<Rightarrow> receiver \<Rightarrow> bool \<Rightarrow> taskiq_message \<Rightarrow> unit io" where
  "dispatch w self raise_err taskiq_msg =
     io_bind (io_emit (EvLog Debug)) (\<lambda>_.
     io_bind (pre_execute_loop (middlewares (broker self)) taskiq_msg) (\<lambda>taskiq_msg.
     io_bind (io_emit (EvLog Info)) (\<lambda>_.
     io_bind
       (case available_tasks (broker self) (task_name taskiq_msg) of
          None \<Rightarrow> io_raise (PyException ''KeyError'')
        | Some target \<Rightarrow> run_task w self target taskiq_msg)
       (\<lambda>(taskiq_msg, result).
     io_bind (post_execute_loop (middlewares (broker self)) taskiq_msg result) (\<lambda>_.
     save_result self raise_err taskiq_msg result)))))"

text \<open>
  \<open>callback\<close>, lines 65 to 135. \<open>loaded\<close> is \<open>None\<close> when the \<open>except\<close> branch of lines 84
  to 91 returned.
\<close>

definition callback :: "world \<Rightarrow> receiver \<Rightarrow> string \<Rightarrow> bool \<Rightarrow> unit io" where
  "callback w self message raise_err =
     io_bind
       (io_except
          (io_bind (io_do_quiet (formatter_loads (broker self) message))
             (\<lambda>taskiq_msg. io_return (Some taskiq_msg)))
          (\<lambda>exc. io_bind (io_emit (EvLog Warning)) (\<lambda>_. io_return None)))
       (\<lambda>loaded.
          case loaded of
            None \<Rightarrow> io_return ()
          | Some taskiq_msg \<Rightarrow>
              io_bind (io_emit (EvLog Debug)) (\<lambda>_.
              if available_tasks (broker self) (task_name taskiq_msg) = None
              then io_emit (EvLog Warning)
              else dispatch w self raise_err taskiq_msg))"

section \<open>The listener: \<open>listen\<close>\<close>

text \<open>
  Lines 56 to 63 of \<open>__init__\<close>: a semaphore is made only for a positive
  \<open>max_async_tasks\<close>; otherwise \<open>sem\<close> stays \<open>None\<close> and a warning is logged.
\<close>

definition init_sem :: "int option \<Rightarrow> nat option io" where
  "init_sem max_async_tasks =
     (case max_async_tasks of
        None \<Rightarrow> io_bind (io_emit (EvLog Warning)) (\<lambda>_. io_return None)
      | Some k \<Rightarrow>
          if 0 < k then io_return (Some (nat k))
          else io_bind (io_emit (EvLog Warning)) (\<lambda>_. io_return None))"

text \<open>
  \<open>listen\<close> (lines 233 to 270) runs on one event loop, so its state changes in atomic
  steps between two \<open>await\<close>s. The state: the counter of \<open>self.sem\<close> (\<open>None\<close> without a
  semaphore), the set \<open>tasks\<close>, the units that the event loop has created and not yet
  finished, and the number of units created so far, which names the next one. Two
  fields only observe: \<open>released\<close> counts, for each unit, the calls of
  \<^verbatim>\<open>self.sem.release()\<close> made on its behalf, and \<open>outcomes\<close> keeps how a unit ended.
\<close>

datatype completion = Returned | Raised | Cancelled

record listener =
  sem_value :: "nat option"
  tasks :: "nat set"
  unfinished :: "nat set"
  spawned :: nat
  released :: "nat \<Rightarrow> nat"
  outcomes :: "nat \<rightharpoonup> completion"

definition listen_start :: "nat option \<Rightarrow> listener" where
  "listen_start sem0 =
     \<lparr>sem_value = sem0, tasks = {}, unfinished = {}, spawned = 0,
      released = (\<lambda>_. 0), outcomes = Map.empty\<rparr>"

text \<open>
  Lines 244 to 256, \<open>task_cb\<close>: \<^verbatim>\<open>tasks.discard(task)\<close>, and \<^verbatim>\<open>self.sem.release()\<close> when
  there is a semaphore.
\<close>

definition task_cb :: "nat \<Rightarrow> listener \<Rightarrow> listener" where
  "task_cb task s =
     (let s = s\<lparr>tasks := tasks s - {task}\<rparr> in
      case sem_value s of
        None \<Rightarrow> s
      | Some v \<Rightarrow> s\<lparr>sem_value := Some (Suc v), released := (released s)(task := Suc (released s task))\<rparr>)"

text \<open>
  Lines 258 to 270, one turn of the loop for a message: \<^verbatim>\<open>await self.sem.acquire()\<close>
  returns only when the counter is positive and decrements it; then the unit is created,
  added to \<open>tasks\<close> and given \<open>task_cb\<close> as its done callback, with no \<open>await\<close> between.
\<close>

definition spawn_unit :: "listener \<Rightarrow> listener" where
  "spawn_unit s =
     s\<lparr>sem_value := map_option (\<lambda>v. v - 1) (sem_value s),
       tasks := insert (spawned s) (tasks s),
       unfinished := insert (spawned s) (unfinished s),
       spawned := Suc (spawned s)\<rparr>"

text \<open>
  The steps of the listener. \<open>admit\<close>: a message arrives and the semaphore, if any, has
  a permit. \<open>finish\<close>: the event loop finishes a unit, whether its coroutine returned,
  raised or was cancelled, and then runs the unit's done callbacks once (the contract of
  \<^verbatim>\<open>add_done_callback\<close>).
\<close>

inductive listen_step :: "listener \<Rightarrow> listener \<Rightarrow> bool" where
  admit: "sem_value s \<noteq> Some 0 \<Longrightarrow> listen_step s (spawn_unit s)"
| finish: "task \<in> unfinished s \<Longrightarrow>
     listen_step s
       (task_cb task (s\<lparr>unfinished := unfinished s - {task}, outcomes := (outcomes s)(task \<mapsto> c)\<rparr>))"

text \<open>
  What holds of the listener between two steps when the semaphore was made with \<open>k\<close>
  permits: the permits left and the units in flight add up to \<open>k\<close>, \<open>tasks\<close> holds
  exactly the units in flight, and a permit was released once for each unit that has
  ended and never for another.
\<close>

definition listener_inv :: "nat \<Rightarrow> listener \<Rightarrow> bool" where
  "listener_inv k s \<longleftrightarrow>
     finite (unfinished s) \<and> card (unfinished s) \<le> k
     \<and> sem_value s = Some (k - card (unfinished s))
     \<and> tasks s = unfinished s
     \<and> unfinished s \<subseteq> {..<spawned s}
     \<and> (\<forall>task. released s task = (if task < spawned s \<and> task \<notin> unfinished s then 1 else 0))
     \<and> (\<forall>task. (outcomes s task \<noteq> None) = (task < spawned s \<and> task \<notin> unfinished s))"

section \<open>Observations on traces\<close>

fun is_call :: "event \<Rightarrow> bool" where
  "is_call (EvCall l a k) = True"
| "is_call _ = False"

fun is_on_error :: "event \<Rightarrow> bool" where
  "is_on_error (EvOnError n m r e) = True"
| "is_on_error _ = False"

fun is_close :: "event \<Rightarrow> bool" where
  "is_close EvCloseCtx = True"
| "is_close _ = False"

text \<open>
  The message that an \<open>on_error\<close>, \<open>post_execute\<close> or \<open>post_save\<close> hook was given; \<open>None\<close>
  for every other event.
\<close>

fun observed_message :: "event \<Rightarrow> taskiq_message option" where
  "observed_message (EvOnError n m r e) = Some m"
| "observed_message (EvPostExecute n m r) = Some m"
| "observed_message (EvPostSave n m r) = Some m"
| "observed_message _ = None"

text \<open>The overriding \<open>pre_execute\<close> hooks of a list of middlewares, with their names, in order.\<close>

fun pre_execute_hooks ::
  "middleware list \<Rightarrow> (string \<times> (taskiq_message \<Rightarrow> exn + taskiq_message)) list" where
  "pre_execute_hooks [] = []"
| "pre_execute_hooks (mw # rest) =
     (case pre_execute mw of
        None \<Rightarrow> pre_execute_hooks rest
      | Some hook \<Rightarrow> (mw_name mw, hook) # pre_execute_hooks rest)"

text \<open>
  What \<open>run_task\<close> does once the parameters are checked and the dependencies resolved
  (lines 185 to 231), for the proofs.
\<close>

definition make_result :: "world \<Rightarrow> pyval \<Rightarrow> exn option \<Rightarrow> taskiq_result" where
  "make_result w returned found_exception =
     \<lparr>is_err = (found_exception \<noteq> None), log_slot = None, return_value = returned,
      execution_time = time_stop w - time_start w\<rparr>"

definition finish_task ::
  "world \<Rightarrow> receiver \<Rightarrow> py_callable \<Rightarrow> dependency_graph option \<Rightarrow> taskiq_message \<Rightarrow>
     (taskiq_message \<times> taskiq_result) io" where
  "finish_task w self target dep_ctx message =
     io_bind (execute_target target message) (\<lambda>(returned, found_exception).
     io_bind (close_dep_ctx dep_ctx) (\<lambda>_.
     io_bind
       (case found_exception of
          None \<Rightarrow> io_return ()
        | Some exc \<Rightarrow>
            on_error_loop (middlewares (broker self)) message
              (make_result w returned found_exception) exc)
       (\<lambda>_.
     io_return (message, make_result w returned found_exception))))"

text \<open>What \<open>callback\<close> does once \<open>run_task\<close> has returned (lines 120 to 135), for the proofs.\<close>

definition after_run :: "receiver \<Rightarrow> bool \<Rightarrow> taskiq_message \<Rightarrow> taskiq_result \<Rightarrow> unit io" where
  "after_run self raise_err taskiq_msg result =
     io_bind (post_execute_loop (middlewares (broker self)) taskiq_msg result) (\<lambda>_.
     save_result self raise_err taskiq_msg result)"

section \<open>A worker to run\<close>

text \<open>
  Concrete collaborators on which the theorems are run: a few tasks, the wire format of
  a formatter, dependency graphs, and a few middlewares.
\<close>

definition add_func :: py_callable where
  "add_func =
     \<lparr>iscoroutinefunction = False,
      call = (\<lambda>a k. case a of
                       [PyInt x, PyInt y] \<Rightarrow> Inr (PyInt (x + y))
                     | _ \<Rightarrow> Inl (PyException ''TypeError''))\<rparr>"

definition boom_func :: py_callable where
  "boom_func = \<lparr>iscoroutinefunction = True, call = (\<lambda>a k. Inl (PyException ''RuntimeError''))\<rparr>"

definition quit_func :: py_callable where
  "quit_func = \<lparr>iscoroutinefunction = False, call = (\<lambda>a k. Inl (PyBaseException ''SystemExit''))\<rparr>"

definition cancelled_func :: py_callable where
  "cancelled_func =
     \<lparr>iscoroutinefunction = True, call = (\<lambda>a k. Inl (PyBaseException ''CancelledError''))\<rparr>"

definition get_x_func :: py_callable where
  "get_x_func =
     \<lparr>iscoroutinefunction = True,
      call = (\<lambda>a k. case map_of k ''x'' of
                       Some v \<Rightarrow> Inr v
                     | None \<Rightarrow> Inl (PyException ''TypeError''))\<rparr>"

definition ex_tasks :: "(string \<times> py_callable) list" where
  "ex_tasks =
     [(''add'', add_func), (''boom'', boom_func), (''quit'', quit_func), (''get_x'', get_x_func),
      (''needs_db'', add_func), (''leaky'', add_func), (''cancelled'', cancelled_func),
      (''boom_db'', boom_func)]"

definition ex_message :: "string \<Rightarrow> pyval list \<Rightarrow> py_kwargs \<Rightarrow> taskiq_message" where
  "ex_message name a k = \<lparr>task_id = ''id-1'', task_name = name, args = a, kwargs = k\<rparr>"

definition ex_loads :: "string \<Rightarrow> exn + taskiq_message" where
  "ex_loads raw =
     (case map_of
        [(''add 2 3'', ex_message ''add'' [PyInt 2, PyInt 3] []),
         (''add'', ex_message ''add'' [] []),
         (''boom'', ex_message ''boom'' [] []),
         (''get_x x=5'', ex_message ''get_x'' [] [(''x'', PyInt 5)]),
         (''missing'', ex_message ''missing'' [] [])] raw of
        None \<Rightarrow> Inl (PyException ''JSONDecodeError'')
      | Some m \<Rightarrow> Inr m)"

definition ex_graphs :: "(string \<times> dependency_graph) list" where
  "ex_graphs =
     [(''get_x'',
         \<lparr>resolve_kwargs = (\<lambda>m. Inr [(''x'', PyInt 1), (''session'', PyStr ''db'')]),
          close_ctx = Inr ()\<rparr>),
      (''needs_db'',
         \<lparr>resolve_kwargs = (\<lambda>m. Inl (PyException ''ConnectionError'')), close_ctx = Inr ()\<rparr>),
      (''leaky'', \<lparr>resolve_kwargs = (\<lambda>m. Inr []), close_ctx = Inl (PyException ''CloseError'')\<rparr>),
      (''add'', \<lparr>resolve_kwargs = (\<lambda>m. Inr []), close_ctx = Inr ()\<rparr>),
      (''boom'', \<lparr>resolve_kwargs = (\<lambda>m. Inr []), close_ctx = Inr ()\<rparr>),
      (''quit'', \<lparr>resolve_kwargs = (\<lambda>m. Inr []), close_ctx = Inr ()\<rparr>),
      (''cancelled'', \<lparr>resolve_kwargs = (\<lambda>m. Inr []), close_ctx = Inr ()\<rparr>),
      (''boom_db'',
         \<lparr>resolve_kwargs = (\<lambda>m. Inr [(''session'', PyStr ''db'')]), close_ctx = Inr ()\<rparr>)]"

definition ex_world :: world where
  "ex_world =
     \<lparr>validate = (\<lambda>sg hints m. if length (args m) + length (kwargs m) \<le> length sg
                                then Some m else None),
      time_start = 10, time_stop = 12\<rparr>"

text \<open>The same world with the wall clock set back by the second reading.\<close>

definition ex_world_set_back :: world where
  "ex_world_set_back = ex_world\<lparr>time_start := 12, time_stop := 10\<rparr>"

text \<open>A middleware whose \<open>pre_execute\<close> hook renames the task to one that is not registered.\<close>

definition mw_rename :: middleware where
  "mw_rename =
     \<lparr>mw_name = ''rename'', pre_execute = Some (\<lambda>m. Inr (m\<lparr>task_name := ''gone''\<rparr>)),
      post_execute = None, post_save = None, on_error = None\<rparr>"

definition ex_receiver :: "middleware list \<Rightarrow> receiver" where
  "ex_receiver mws =
     \<lparr>broker =
        \<lparr>formatter_loads = ex_loads, available_tasks = map_of ex_tasks, middlewares = mws,
         set_result = (\<lambda>i r. Inr ())\<rparr>,
      validate_params = True,
      task_signatures =
        map_of [(''add'', [''a'', ''b'']), (''boom'', []), (''quit'', []),
                (''get_x'', [''x'', ''session'']), (''needs_db'', [''a'', ''b'']),
                (''leaky'', [''a'', ''b'']), (''cancelled'', []), (''boom_db'', [''session''])],
      task_hints = Map.empty,
      dependency_graphs = map_of ex_graphs,
      sem = None\<rparr>"

definition mw_plain :: middleware where
  "mw_plain =
     \<lparr>mw_name = ''plain'', pre_execute = None, post_execute = None, post_save = None,
      on_error = None\<rparr>"

definition mw_append :: "string \<Rightarrow> pyval \<Rightarrow> middleware" where
  "mw_append n v = mw_plain\<lparr>mw_name := n, pre_execute := Some (\<lambda>m. Inr (m\<lparr>args := args m @ [v]\<rparr>))\<rparr>"

definition mw_watch :: "string \<Rightarrow> middleware" where
  "mw_watch n =
     mw_plain\<lparr>mw_name := n, post_execute := Some (\<lambda>m r. Inr ()), post_save := Some (\<lambda>m r. Inr ()),
       on_error := Some (\<lambda>m r e. Inr ())\<rparr>"

definition mw_bad_pre :: middleware where
  "mw_bad_pre = mw_plain\<lparr>mw_name := ''bad_pre'', pre_execute := Some (\<lambda>m. Inl (PyException ''HookError''))\<rparr>"

definition mw_bad_post :: middleware where
  "mw_bad_post =
     mw_plain\<lparr>mw_name := ''bad_post'', post_execute := Some (\<lambda>m r. Inl (PyException ''HookError''))\<rparr>"

definition mw_bad_save :: middleware where
  "mw_bad_save =
     mw_plain\<lparr>mw_name := ''bad_save'', post_save := Some (\<lambda>m r. Inl (PyException ''HookError''))\<rparr>"

definition mw_bad_on_error :: middleware where
  "mw_bad_on_error =
     mw_plain\<lparr>mw_name := ''bad_on_error'', on_error := Some (\<lambda>m r e. Inl (PyException ''HookError''))\<rparr>"

section \<open>Laws of the effect combinators\<close>

lemma io_bind_Inl [simp]: "io_bind (t, Inl e) f = (t, Inl e)"
  by (simp add: io_bind_def)

lemma io_bind_Inr [simp]: "io_bind (t, Inr x) f = (t @ fst (f x), snd (f x))"
  by (simp add: io_bind_def split: prod.splits)

lemma io_except_Inr [simp]: "io_except (t, Inr x) h = (t, Inr x)"
  by (simp add: io_except_def)

lemma io_except_Inl [simp]:
  "io_except (t, Inl e) h = (if is_Exception e then (t @ fst (h e), snd (h e)) else (t, Inl e))"
  by (simp add: io_except_def split: prod.splits)

lemma fst_io_bind:
  "fst (io_bind m f) = fst m @ (case snd m of Inl e \<Rightarrow> [] | Inr x \<Rightarrow> fst (f x))"
  by (cases m; cases "snd m") (auto simp: io_bind_def split: prod.splits)

lemma snd_io_bind:
  "snd (io_bind m f) = (case snd m of Inl e \<Rightarrow> Inl e | Inr x \<Rightarrow> snd (f x))"
  by (cases m; cases "snd m") (auto simp: io_bind_def split: prod.splits)

lemmas io_defs = io_return_def io_raise_def io_emit_def io_do_def io_do_quiet_def

section \<open>The phases of \<open>run_task\<close>\<close>

lemma run_task_phases:
  "run_task w self target message =
     io_bind (checked_message w self message) (\<lambda>m1.
     io_bind (resolve_dependencies (dependency_graphs self (task_name message)) m1)
       (\<lambda>(dep_ctx, m2). finish_task w self target dep_ctx m2))"
  unfolding run_task_def finish_task_def make_result_def Let_def
  by (rule refl)

lemma run_task_resolved:
  assumes "checked_message w self message = ([], Inr m1)"
    and "resolve_dependencies (dependency_graphs self (task_name message)) m1 =
           (t, Inr (dep_ctx, m2))"
  shows "run_task w self target message =
           (t @ fst (finish_task w self target dep_ctx m2),
            snd (finish_task w self target dep_ctx m2))"
  using assms by (simp add: run_task_phases)

lemma resolve_dependencies_Some:
  assumes "resolve_kwargs g m1 = Inr dep_kwargs"
  shows "resolve_dependencies (Some g) m1 =
           ([EvOpenCtx, EvResolveKwargs],
            Inr (Some g, m1\<lparr>kwargs := inject_dep_kwargs dep_kwargs (kwargs m1)\<rparr>))"
  using assms by (simp add: resolve_dependencies_def io_defs)

lemma execute_target_simps:
  "call target (args m) (kwargs m) = Inr v \<Longrightarrow>
     execute_target target m =
       ([EvCall (if iscoroutinefunction target then Inline else Executor) (args m) (kwargs m)],
        Inr (v, None))"
  "call target (args m) (kwargs m) = Inl exc \<Longrightarrow> is_Exception exc \<Longrightarrow>
     execute_target target m =
       ([EvCall (if iscoroutinefunction target then Inline else Executor) (args m) (kwargs m),
         EvLog Error], Inr (PyNone, Some exc))"
  "call target (args m) (kwargs m) = Inl exc \<Longrightarrow> \<not> is_Exception exc \<Longrightarrow>
     execute_target target m =
       ([EvCall (if iscoroutinefunction target then Inline else Executor) (args m) (kwargs m)],
        Inl exc)"
  by (simp_all add: execute_target_def io_defs)

lemma finish_task_returned:
  assumes "call target (args m) (kwargs m) = Inr v"
  shows "finish_task w self target dep_ctx m =
           (EvCall (if iscoroutinefunction target then Inline else Executor) (args m) (kwargs m)
              # fst (close_dep_ctx dep_ctx),
            case snd (close_dep_ctx dep_ctx) of
              Inl e \<Rightarrow> Inl e
            | Inr u \<Rightarrow> Inr (m, make_result w v None))"
  using assms
  by (cases dep_ctx)
     (auto simp: finish_task_def execute_target_simps close_dep_ctx_def io_defs split: sum.splits)

lemma finish_task_caught:
  assumes "call target (args m) (kwargs m) = Inl exc" and "is_Exception exc"
  shows "finish_task w self target dep_ctx m =
           (EvCall (if iscoroutinefunction target then Inline else Executor) (args m) (kwargs m)
              # EvLog Error # fst (close_dep_ctx dep_ctx)
              @ (case snd (close_dep_ctx dep_ctx) of
                   Inl e \<Rightarrow> []
                 | Inr u \<Rightarrow>
                     fst (on_error_loop (middlewares (broker self)) m
                            (make_result w PyNone (Some exc)) exc)),
            case snd (close_dep_ctx dep_ctx) of
              Inl e \<Rightarrow> Inl e
            | Inr u \<Rightarrow>
                (case snd (on_error_loop (middlewares (broker self)) m
                             (make_result w PyNone (Some exc)) exc) of
                   Inl e \<Rightarrow> Inl e
                 | Inr u \<Rightarrow> Inr (m, make_result w PyNone (Some exc))))"
  using assms
  by (cases dep_ctx)
     (auto simp: finish_task_def execute_target_simps close_dep_ctx_def io_defs
           fst_io_bind snd_io_bind split: sum.splits)

lemma finish_task_escaped:
  assumes "call target (args m) (kwargs m) = Inl exc" and "\<not> is_Exception exc"
  shows "finish_task w self target dep_ctx m =
           ([EvCall (if iscoroutinefunction target then Inline else Executor) (args m) (kwargs m)],
            Inl exc)"
  using assms by (simp add: finish_task_def execute_target_simps)

lemma resolve_dependencies_events:
  "resolve_dependencies dg m = (t, r) \<Longrightarrow> filter is_on_error t = []"
  by (cases dg; cases "resolve_kwargs (the dg) m")
     (auto simp: resolve_dependencies_def io_defs)

lemma close_dep_ctx_events: "filter is_on_error (fst (close_dep_ctx dep_ctx)) = []"
  by (cases dep_ctx) (auto simp: close_dep_ctx_def io_defs)

lemma on_error_loop_all:
  assumes "\<forall>mw \<in> set mws. \<forall>hook. on_error mw = Some hook \<longrightarrow> hook m r exc = Inr ()"
  shows "on_error_loop mws m r exc =
           (map (\<lambda>mw. EvOnError (mw_name mw) m r exc) (filter (\<lambda>mw. on_error mw \<noteq> None) mws),
            Inr ())"
  using assms by (induction mws) (auto simp: io_defs)

section \<open>Injection of dependencies\<close>

lemma inject_keeps:
  "map_of kw key = Some v \<Longrightarrow> map_of (inject_dep_kwargs deps kw) key = Some v"
proof (induction deps kw rule: inject_dep_kwargs.induct)
  case (1 kw)
  then show ?case by simp
next
  case (2 k v' rest kw)
  show ?case
  proof (cases "map_of kw k = None")
    case True
    with "2.prems" have "k \<noteq> key" by auto
    with "2.prems" have "map_of (AList.update k v' kw) key = Some v"
      by (simp add: update_conv')
    with "2.IH" True show ?thesis by simp
  next
    case False
    with 2 show ?thesis by auto
  qed
qed

lemma inject_adds:
  "map_of kw key = None \<Longrightarrow> map_of (inject_dep_kwargs deps kw) key = map_of deps key"
proof (induction deps kw rule: inject_dep_kwargs.induct)
  case (1 kw)
  then show ?case by simp
next
  case (2 k v rest kw)
  show ?case
  proof (cases "k = key")
    case True
    with 2 have "map_of (AList.update k v kw) key = Some v"
      by (simp add: update_conv')
    with True 2 show ?thesis by (simp add: inject_keeps)
  next
    case False
    with 2 show ?thesis by (simp add: update_conv')
  qed
qed

lemma on_error_loop_no_call: "filter is_call (fst (on_error_loop mws m r e)) = []"
  by (induction mws) (auto simp: io_defs fst_io_bind split: option.splits sum.splits)

lemma finish_task_calls:
  "filter is_call (fst (finish_task w self target dep_ctx m)) =
     [EvCall (if iscoroutinefunction target then Inline else Executor) (args m) (kwargs m)]"
  by (cases "call target (args m) (kwargs m)"; cases dep_ctx)
     (auto simp: finish_task_def execute_target_def close_dep_ctx_def io_defs
           on_error_loop_no_call fst_io_bind split: sum.splits)

lemmas run_defs =
  run_task_def checked_message_def parse_params_def resolve_dependencies_def
  execute_target_def close_dep_ctx_def save_result_def dispatch_def callback_def Let_def
  io_return_def io_raise_def io_emit_def io_do_def io_do_quiet_def

lemmas ex_defs =
  add_func_def boom_func_def quit_func_def cancelled_func_def get_x_func_def ex_tasks_def ex_message_def
  ex_loads_def ex_graphs_def ex_world_def ex_world_set_back_def mw_rename_def ex_receiver_def mw_plain_def mw_append_def
  mw_watch_def mw_bad_pre_def mw_bad_post_def mw_bad_save_def mw_bad_on_error_def

section \<open>The phases of \<open>callback\<close>\<close>

lemma callback_undecodable:
  assumes "formatter_loads (broker self) raw = Inl e"
  shows "callback w self raw raise_err =
           (if is_Exception e then ([EvLog Warning], Inr ()) else ([], Inl e))"
  using assms by (simp add: callback_def io_defs)

lemma callback_unknown_task:
  assumes "formatter_loads (broker self) raw = Inr m0"
    and "available_tasks (broker self) (task_name m0) = None"
  shows "callback w self raw raise_err = ([EvLog Debug, EvLog Warning], Inr ())"
  using assms by (simp add: callback_def io_defs)

lemma callback_dispatch:
  assumes "formatter_loads (broker self) raw = Inr m0"
    and "available_tasks (broker self) (task_name m0) \<noteq> None"
  shows "callback w self raw raise_err =
           (EvLog Debug # fst (dispatch w self raise_err m0), snd (dispatch w self raise_err m0))"
  using assms by (auto simp: callback_def io_defs)

lemma dispatch_pre_execute_raises:
  assumes "snd (pre_execute_loop (middlewares (broker self)) m0) = Inl e"
  shows "snd (dispatch w self raise_err m0) = Inl e"
  using assms by (simp add: dispatch_def io_defs snd_io_bind)

lemma dispatch_run:
  assumes "pre_execute_loop (middlewares (broker self)) m0 = (t, Inr m)"
    and "available_tasks (broker self) (task_name m) = Some target"
  shows "dispatch w self raise_err m0 =
           (EvLog Debug # t @ EvLog Info # fst (run_task w self target m)
              @ (case snd (run_task w self target m) of
                   Inl e \<Rightarrow> []
                 | Inr (m', r) \<Rightarrow> fst (after_run self raise_err m' r)),
            case snd (run_task w self target m) of
              Inl e \<Rightarrow> Inl e
            | Inr (m', r) \<Rightarrow> snd (after_run self raise_err m' r))"
  using assms
  by (simp add: dispatch_def after_run_def io_defs fst_io_bind snd_io_bind
        split: sum.splits prod.splits)

lemma save_result_post_save_raises:
  assumes "set_result (broker self) (task_id m) r = Inr ()"
    and "snd (post_save_loop (middlewares (broker self)) m r) = Inl e"
  shows "snd (save_result self raise_err m r) =
           (if is_Exception e \<and> \<not> raise_err then Inr () else Inl e)"
proof -
  obtain t where "post_save_loop (middlewares (broker self)) m r = (t, Inl e)"
    using assms(2) by (cases "post_save_loop (middlewares (broker self)) m r") auto
  with assms(1) show ?thesis
    by (simp add: save_result_def io_defs)
qed

lemma dispatch_pre_execute_raised:
  assumes "pre_execute_loop (middlewares (broker self)) m0 = (t, Inl e)"
  shows "dispatch w self raise_err m0 = (EvLog Debug # t, Inl e)"
  using assms by (simp add: dispatch_def io_defs)

lemma dispatch_renamed:
  assumes "pre_execute_loop (middlewares (broker self)) m0 = (t, Inr m)"
    and "available_tasks (broker self) (task_name m) = None"
  shows "dispatch w self raise_err m0 = (EvLog Debug # t @ [EvLog Info], Inl (PyException ''KeyError''))"
  using assms by (simp add: dispatch_def io_defs)

section \<open>What a hook loop does, from what its hooks do\<close>

lemma pre_execute_hooks_names:
  "map fst (pre_execute_hooks mws) = map mw_name (filter (\<lambda>mw. pre_execute mw \<noteq> None) mws)"
  by (induction mws) (auto split: option.splits)

text \<open>
  The hooks in \<open>pre_execute_hooks mws\<close> all return: hook \<open>i\<close> is given \<open>xs ! i\<close> and returns
  \<open>xs ! Suc i\<close>. Then the loop invokes them all, in order, and yields the last message.
\<close>

lemma pre_execute_loop_chain:
  assumes "length xs = Suc (length (pre_execute_hooks mws))"
    and "xs ! 0 = m0"
    and "\<forall>i < length (pre_execute_hooks mws).
           snd (pre_execute_hooks mws ! i) (xs ! i) = Inr (xs ! Suc i)"
  shows "pre_execute_loop mws m0 =
           (map (\<lambda>i. EvPreExecute (fst (pre_execute_hooks mws ! i)) (xs ! i))
              [0..<length (pre_execute_hooks mws)],
            Inr (last xs))"
  using assms
proof (induction mws arbitrary: m0 xs)
  case Nil
  then obtain x where "xs = [x]" by (cases xs) auto
  with Nil show ?case by (simp add: io_return_def)
next
  case (Cons mw rest)
  show ?case
  proof (cases "pre_execute mw")
    case None
    with Cons show ?thesis by simp
  next
    case (Some hook)
    let ?hooks = "pre_execute_hooks rest"
    have hooks: "pre_execute_hooks (mw # rest) = (mw_name mw, hook) # ?hooks"
      using Some by simp
    from Cons.prems(1) hooks obtain xs' where xs: "xs = m0 # xs'"
      and len: "length xs' = Suc (length ?hooks)"
      using Cons.prems(2) by (cases xs) auto
    from Cons.prems(3) hooks xs have first: "hook m0 = Inr (xs' ! 0)"
      by (auto dest: spec [of _ 0])
    have step: "\<forall>i < length ?hooks. snd (?hooks ! i) (xs' ! i) = Inr (xs' ! Suc i)"
    proof (intro allI impI)
      fix i
      assume "i < length ?hooks"
      with Cons.prems(3) hooks xs show "snd (?hooks ! i) (xs' ! i) = Inr (xs' ! Suc i)"
        by (auto dest: spec [of _ "Suc i"])
    qed
    from len have last: "last xs = last xs'"
      using xs by (cases xs') simp_all
    from Cons.IH [OF len refl step] first Some hooks xs last show ?thesis
      by (simp add: io_do_def map_upt_Suc del: upt_Suc)
  qed
qed

text \<open>
  The first \<open>n\<close> hooks return, threading the message, and hook \<open>n\<close> raises. Then the loop
  invokes hooks \<open>0\<close> to \<open>n\<close>, in order, and raises what hook \<open>n\<close> raised.
\<close>

lemma pre_execute_loop_chain_raises:
  assumes "n < length (pre_execute_hooks mws)"
    and "length xs = Suc n"
    and "xs ! 0 = m0"
    and "\<forall>i < n. snd (pre_execute_hooks mws ! i) (xs ! i) = Inr (xs ! Suc i)"
    and "snd (pre_execute_hooks mws ! n) (xs ! n) = Inl e"
  shows "pre_execute_loop mws m0 =
           (map (\<lambda>i. EvPreExecute (fst (pre_execute_hooks mws ! i)) (xs ! i)) [0..<Suc n],
            Inl e)"
  using assms
proof (induction mws arbitrary: m0 xs n)
  case Nil
  then show ?case by simp
next
  case (Cons mw rest)
  show ?case
  proof (cases "pre_execute mw")
    case None
    with Cons show ?thesis by simp
  next
    case (Some hook)
    let ?hooks = "pre_execute_hooks rest"
    have hooks: "pre_execute_hooks (mw # rest) = (mw_name mw, hook) # ?hooks"
      using Some by simp
    show ?thesis
    proof (cases n)
      case 0
      with Cons.prems(3,5) hooks have "hook m0 = Inl e" by simp
      with Some hooks 0 Cons.prems(3) show ?thesis by (simp add: io_do_def)
    next
      case (Suc k)
      from Cons.prems(2,3) Suc obtain xs' where xs: "xs = m0 # xs'"
        and len: "length xs' = Suc k"
        by (cases xs) auto
      from Cons.prems(4) hooks xs Suc have first: "hook m0 = Inr (xs' ! 0)"
        by (auto dest: spec [of _ 0])
      have k: "k < length ?hooks"
        using Cons.prems(1) hooks Suc by simp
      have step: "\<forall>i < k. snd (?hooks ! i) (xs' ! i) = Inr (xs' ! Suc i)"
      proof (intro allI impI)
        fix i
        assume "i < k"
        with Cons.prems(4) hooks xs Suc show "snd (?hooks ! i) (xs' ! i) = Inr (xs' ! Suc i)"
          by (auto dest: spec [of _ "Suc i"])
      qed
      have raise: "snd (?hooks ! k) (xs' ! k) = Inl e"
        using Cons.prems(5) hooks xs Suc by simp
      from Cons.IH [OF k len refl step raise] first Some hooks xs Suc show ?thesis
        by (simp add: io_do_def map_upt_Suc del: upt_Suc)
    qed
  qed
qed

text \<open>
  The other three loops pass the same arguments to every hook. When the overriding
  hooks before a middleware return, the hook of that middleware is invoked; when it
  raises, the loop raises the same exception and invokes no further hook.
\<close>

lemma on_error_loop_hook_raises:
  assumes "\<forall>mw' \<in> set before. \<forall>h. on_error mw' = Some h \<longrightarrow> h m r exc = Inr ()"
    and "on_error mw = Some hook" and "hook m r exc = Inl e"
  shows "on_error_loop (before @ mw # after) m r exc =
           (map (\<lambda>mw. EvOnError (mw_name mw) m r exc) (filter (\<lambda>mw. on_error mw \<noteq> None) before)
              @ [EvOnError (mw_name mw) m r exc],
            Inl e)"
  using assms by (induction before) (auto simp: io_do_def)

lemma post_execute_loop_hook_raises:
  assumes "\<forall>mw' \<in> set before. \<forall>h. post_execute mw' = Some h \<longrightarrow> h m r = Inr ()"
    and "post_execute mw = Some hook" and "hook m r = Inl e"
  shows "post_execute_loop (before @ mw # after) m r =
           (map (\<lambda>mw. EvPostExecute (mw_name mw) m r) (filter (\<lambda>mw. post_execute mw \<noteq> None) before)
              @ [EvPostExecute (mw_name mw) m r],
            Inl e)"
  using assms by (induction before) (auto simp: io_do_def)

lemma post_save_loop_hook_raises:
  assumes "\<forall>mw' \<in> set before. \<forall>h. post_save mw' = Some h \<longrightarrow> h m r = Inr ()"
    and "post_save mw = Some hook" and "hook m r = Inl e"
  shows "post_save_loop (before @ mw # after) m r =
           (map (\<lambda>mw. EvPostSave (mw_name mw) m r) (filter (\<lambda>mw. post_save mw \<noteq> None) before)
              @ [EvPostSave (mw_name mw) m r],
            Inl e)"
  using assms by (induction before) (auto simp: io_do_def)

lemma on_error_loop_hook_invoked:
  assumes "\<forall>mw' \<in> set before. \<forall>h. on_error mw' = Some h \<longrightarrow> h m r exc = Inr ()"
    and "on_error mw = Some hook"
  shows "EvOnError (mw_name mw) m r exc \<in> set (fst (on_error_loop (before @ mw # after) m r exc))"
  using assms by (induction before) (auto simp: io_do_def fst_io_bind split: option.splits)

lemma post_execute_loop_hook_invoked:
  assumes "\<forall>mw' \<in> set before. \<forall>h. post_execute mw' = Some h \<longrightarrow> h m r = Inr ()"
    and "post_execute mw = Some hook"
  shows "EvPostExecute (mw_name mw) m r \<in> set (fst (post_execute_loop (before @ mw # after) m r))"
  using assms by (induction before) (auto simp: io_do_def fst_io_bind split: option.splits)

lemma post_execute_loop_all:
  assumes "\<forall>mw \<in> set mws. \<forall>hook. post_execute mw = Some hook \<longrightarrow> hook m r = Inr ()"
  shows "post_execute_loop mws m r =
           (map (\<lambda>mw. EvPostExecute (mw_name mw) m r) (filter (\<lambda>mw. post_execute mw \<noteq> None) mws),
            Inr ())"
  using assms by (induction mws) (auto simp: io_defs)

text \<open>The close of the context, from what \<^verbatim>\<open>dep_ctx.close()\<close> does.\<close>

lemma close_dep_ctx_ok:
  assumes "case dep_ctx of None \<Rightarrow> True | Some g \<Rightarrow> close_ctx g = Inr ()"
  shows "snd (close_dep_ctx dep_ctx) = Inr ()"
  using assms by (cases dep_ctx) (simp_all add: close_dep_ctx_def io_defs)

section \<open>Dependencies never override explicit arguments\<close>

text \<open>
  C2. When \<open>run_task\<close> resolves dependencies, the task body is called exactly once, with
  the positional arguments of the (validated) message and with named arguments in which
  every name the message already carried keeps the message's value, and every other name
  has the value the resolution gave it: an explicit named argument is never overwritten
  by an injected one.
\<close>

theorem explicit_kwargs_take_precedence:
  assumes "checked_message w self message = ([], Inr m1)"
    and "dependency_graphs self (task_name message) = Some g"
    and "resolve_kwargs g m1 = Inr dep_kwargs"
  shows "filter is_call (fst (run_task w self target message)) =
           [EvCall (if iscoroutinefunction target then Inline else Executor) (args m1)
              (inject_dep_kwargs dep_kwargs (kwargs m1))]
         \<and> (\<forall>key v. map_of (kwargs m1) key = Some v \<longrightarrow>
               map_of (inject_dep_kwargs dep_kwargs (kwargs m1)) key = Some v)
         \<and> (\<forall>key. map_of (kwargs m1) key = None \<longrightarrow>
               map_of (inject_dep_kwargs dep_kwargs (kwargs m1)) key = map_of dep_kwargs key)"
proof -
  have "filter is_call (fst (run_task w self target message)) =
           [EvCall (if iscoroutinefunction target then Inline else Executor) (args m1)
              (inject_dep_kwargs dep_kwargs (kwargs m1))]"
    using assms
    by (simp add: run_task_phases resolve_dependencies_Some finish_task_calls)
  then show ?thesis by (simp add: inject_keeps inject_adds)
qed

theorem explicit_kwargs_take_precedence_witness:
  "filter is_call
     (fst (run_task ex_world (ex_receiver []) get_x_func (ex_message ''get_x'' [] [(''x'', PyInt 5)]))) =
     [EvCall Inline [] [(''x'', PyInt 5), (''session'', PyStr ''db'')]]
   \<and> snd (run_task ex_world (ex_receiver []) get_x_func (ex_message ''get_x'' [] [(''x'', PyInt 5)])) =
       Inr (ex_message ''get_x'' [] [(''x'', PyInt 5), (''session'', PyStr ''db'')],
            \<lparr>is_err = False, log_slot = None, return_value = PyInt 5, execution_time = 2\<rparr>)"
proof -
  let ?m = "ex_message ''get_x'' [] [(''x'', PyInt 5)]"
  let ?g = "\<lparr>resolve_kwargs = (\<lambda>m. Inr [(''x'', PyInt 1), (''session'', PyStr ''db'')]),
             close_ctx = Inr ()\<rparr>"
  have a: "checked_message ex_world (ex_receiver []) ?m = ([], Inr ?m)"
    by (simp add: checked_message_def parse_params_def io_defs ex_defs)
  have b: "dependency_graphs (ex_receiver []) (task_name ?m) = Some ?g"
    by (simp add: ex_defs)
  have c: "resolve_kwargs ?g ?m = Inr [(''x'', PyInt 1), (''session'', PyStr ''db'')]"
    by simp
  have d: "inject_dep_kwargs [(''x'', PyInt 1), (''session'', PyStr ''db'')] (kwargs ?m) =
             [(''x'', PyInt 5), (''session'', PyStr ''db'')]"
    by (simp add: ex_defs)
  have e: "snd (run_task ex_world (ex_receiver []) get_x_func ?m) =
       Inr (ex_message ''get_x'' [] [(''x'', PyInt 5), (''session'', PyStr ''db'')],
            \<lparr>is_err = False, log_slot = None, return_value = PyInt 5, execution_time = 2\<rparr>)"
    by (simp add: run_defs ex_defs)
  have "filter is_call (fst (run_task ex_world (ex_receiver []) get_x_func ?m)) =
          [EvCall (if iscoroutinefunction get_x_func then Inline else Executor) (args ?m)
             (inject_dep_kwargs [(''x'', PyInt 1), (''session'', PyStr ''db'')] (kwargs ?m))]"
    using explicit_kwargs_take_precedence [OF a b c, of get_x_func] by (rule conjunct1)
  then have "filter is_call (fst (run_task ex_world (ex_receiver []) get_x_func ?m)) =
          [EvCall Inline [] [(''x'', PyInt 5), (''session'', PyStr ''db'')]]"
    unfolding d by (simp add: get_x_func_def ex_message_def)
  from this e show ?thesis by (rule conjI)
qed

section \<open>A task body that returns\<close>

text \<open>
  C5, as stated, fails in its last part: the duration is the difference of two readings
  of the wall clock (\<open>time()\<close>, lines 186 and 208), which may be set back between them.
  In this run nothing fails, the body returns 5, and the result carries the duration -2.
\<close>

theorem run_task_duration_counterexample:
  "call add_func [PyInt 2, PyInt 3] [] = Inr (PyInt 5)
   \<and> run_task ex_world_set_back (ex_receiver []) add_func
         (ex_message ''add'' [PyInt 2, PyInt 3] []) =
       ([EvOpenCtx, EvResolveKwargs, EvCall Executor [PyInt 2, PyInt 3] [], EvCloseCtx],
        Inr (ex_message ''add'' [PyInt 2, PyInt 3] [],
             \<lparr>is_err = False, log_slot = None, return_value = PyInt 5, execution_time = - 2\<rparr>))
   \<and> \<not> (0::real) \<le> - 2"
  by (simp add: run_defs ex_defs)

text \<open>
  C5, amended. When the message passes \<open>parse_params\<close>, the dependencies (if the task has
  a graph) resolve, the task body returns \<open>v\<close> and \<^verbatim>\<open>dep_ctx.close()\<close> (if there is a
  context) does not raise, then \<open>run_task\<close> returns a result whose failure flag is false
  and whose return value is \<open>v\<close>. Its duration is the second reading of \<open>time()\<close> minus
  the first: it is not negative exactly when the second reading is not before the first.
\<close>

theorem run_task_success:
  assumes "checked_message w self message = ([], Inr m1)"
    and "resolve_dependencies (dependency_graphs self (task_name message)) m1 =
           (t, Inr (dep_ctx, m2))"
    and "call target (args m2) (kwargs m2) = Inr v"
    and "case dep_ctx of None \<Rightarrow> True | Some g \<Rightarrow> close_ctx g = Inr ()"
  shows "\<exists>r. snd (run_task w self target message) = Inr (m2, r)
           \<and> is_err r = False \<and> return_value r = v
           \<and> execution_time r = time_stop w - time_start w
           \<and> (0 \<le> execution_time r) = (time_start w \<le> time_stop w)"
proof -
  from assms(4) have "snd (close_dep_ctx dep_ctx) = Inr ()"
    by (rule close_dep_ctx_ok)
  then show ?thesis
    by (simp add: run_task_resolved [OF assms(1,2)] finish_task_returned [OF assms(3)]
          make_result_def)
qed

theorem run_task_success_witness:
  "\<exists>r. snd (run_task ex_world (ex_receiver []) add_func
              (ex_message ''add'' [PyInt 2, PyInt 3] [])) =
          Inr (ex_message ''add'' [PyInt 2, PyInt 3] [], r)
       \<and> is_err r = False \<and> return_value r = PyInt 5
       \<and> execution_time r = 2 \<and> (0 \<le> execution_time r) = True"
proof -
  let ?m = "ex_message ''add'' [PyInt 2, PyInt 3] []"
  let ?g = "\<lparr>resolve_kwargs = (\<lambda>m. Inr []), close_ctx = Inr ()\<rparr>"
  have a: "checked_message ex_world (ex_receiver []) ?m = ([], Inr ?m)"
    by (simp add: checked_message_def parse_params_def io_defs ex_defs)
  have b: "resolve_dependencies (dependency_graphs (ex_receiver []) (task_name ?m)) ?m =
             ([EvOpenCtx, EvResolveKwargs], Inr (Some ?g, ?m))"
    by (simp add: resolve_dependencies_def io_defs ex_defs)
  have c: "call add_func (args ?m) (kwargs ?m) = Inr (PyInt 5)"
    by (simp add: ex_defs)
  have d: "case Some ?g of None \<Rightarrow> True | Some g \<Rightarrow> close_ctx g = Inr ()"
    by simp
  have e: "(time_start ex_world \<le> time_stop ex_world) = True"
    by (simp add: ex_world_def)
  have f: "time_stop ex_world - time_start ex_world = 2"
    by (simp add: ex_world_def)
  from run_task_success [OF a b c d] show ?thesis
    unfolding e f .
qed

section \<open>A task body that raises\<close>

text \<open>
  C1, as stated, fails: the \<open>try\<close> of lines 187 to 206 catches \<open>Exception\<close> only. A body
  that raises \<open>SystemExit\<close> leaves \<open>run_task\<close> with that exception; no result is made and
  the middleware that overrides \<open>on_error\<close> is not invoked.
\<close>

theorem task_body_exception_counterexample:
  "call quit_func [] [] = Inl (PyBaseException ''SystemExit'')
   \<and> on_error (mw_watch ''w'') \<noteq> None
   \<and> run_task ex_world (ex_receiver [mw_watch ''w'']) quit_func (ex_message ''quit'' [] []) =
       ([EvOpenCtx, EvResolveKwargs, EvCall Executor [] []], Inl (PyBaseException ''SystemExit''))"
  by (simp add: run_defs ex_defs)

text \<open>
  C1, amended. When the task body raises an instance of \<open>Exception\<close> (after
  \<open>parse_params\<close> and the resolution of dependencies went through), and neither the close
  of the dependency context nor an \<open>on_error\<close> hook raises, then \<open>run_task\<close> does not raise:
  it returns a result with the failure flag set and the return value \<open>None\<close>, and the
  \<open>on_error\<close> invocations of the run are exactly one for each middleware that overrides
  \<open>on_error\<close>, in registration order, each with the message as mutated by \<open>run_task\<close>,
  that result and the caught exception.
\<close>

theorem task_body_Exception_becomes_failed_result:
  assumes "checked_message w self message = ([], Inr m1)"
    and "resolve_dependencies (dependency_graphs self (task_name message)) m1 =
           (t, Inr (dep_ctx, m2))"
    and "call target (args m2) (kwargs m2) = Inl exc"
    and "is_Exception exc"
    and "snd (close_dep_ctx dep_ctx) = Inr ()"
    and "result = \<lparr>is_err = True, log_slot = None, return_value = PyNone,
                    execution_time = time_stop w - time_start w\<rparr>"
    and "\<forall>mw \<in> set (middlewares (broker self)).
           \<forall>hook. on_error mw = Some hook \<longrightarrow> hook m2 result exc = Inr ()"
  shows "snd (run_task w self target message) = Inr (m2, result)
       \<and> filter is_on_error (fst (run_task w self target message)) =
           map (\<lambda>mw. EvOnError (mw_name mw) m2 result exc)
             (filter (\<lambda>mw. on_error mw \<noteq> None) (middlewares (broker self)))"
proof -
  have r: "make_result w PyNone (Some exc) = result"
    using assms(6) by (simp add: make_result_def)
  have loop: "on_error_loop (middlewares (broker self)) m2 result exc =
           (map (\<lambda>mw. EvOnError (mw_name mw) m2 result exc)
              (filter (\<lambda>mw. on_error mw \<noteq> None) (middlewares (broker self))), Inr ())"
    using assms(7) by (rule on_error_loop_all)
  have ev: "filter is_on_error (map (\<lambda>mw. EvOnError (mw_name mw) m2 result exc) xs) =
              map (\<lambda>mw. EvOnError (mw_name mw) m2 result exc) xs" for xs
    by (induction xs) auto
  have t: "filter is_on_error t = []"
    using assms(2) by (rule resolve_dependencies_events)
  show ?thesis
    using assms(5) t
    by (simp add: run_task_resolved [OF assms(1,2)] finish_task_caught [OF assms(3,4)]
          r loop ev close_dep_ctx_events)
qed

theorem task_body_Exception_becomes_failed_result_witness:
  "snd (run_task ex_world (ex_receiver [mw_watch ''a'', mw_plain, mw_watch ''b'']) boom_func
          (ex_message ''boom'' [] [])) =
     Inr (ex_message ''boom'' [] [],
          \<lparr>is_err = True, log_slot = None, return_value = PyNone, execution_time = 2\<rparr>)
   \<and> filter is_on_error
       (fst (run_task ex_world (ex_receiver [mw_watch ''a'', mw_plain, mw_watch ''b'']) boom_func
               (ex_message ''boom'' [] []))) =
       [EvOnError ''a'' (ex_message ''boom'' [] [])
          \<lparr>is_err = True, log_slot = None, return_value = PyNone, execution_time = 2\<rparr>
          (PyException ''RuntimeError''),
        EvOnError ''b'' (ex_message ''boom'' [] [])
          \<lparr>is_err = True, log_slot = None, return_value = PyNone, execution_time = 2\<rparr>
          (PyException ''RuntimeError'')]"
proof -
  let ?m = "ex_message ''boom'' [] []"
  let ?self = "ex_receiver [mw_watch ''a'', mw_plain, mw_watch ''b'']"
  let ?g = "\<lparr>resolve_kwargs = (\<lambda>m. Inr []), close_ctx = Inr ()\<rparr>"
  let ?r = "\<lparr>is_err = True, log_slot = None, return_value = PyNone, execution_time = 2\<rparr>"
  have a: "checked_message ex_world ?self ?m = ([], Inr ?m)"
    by (simp add: checked_message_def parse_params_def io_defs ex_defs)
  have b: "resolve_dependencies (dependency_graphs ?self (task_name ?m)) ?m =
             ([EvOpenCtx, EvResolveKwargs], Inr (Some ?g, ?m))"
    by (simp add: resolve_dependencies_def io_defs ex_defs)
  have c: "call boom_func (args ?m) (kwargs ?m) = Inl (PyException ''RuntimeError'')"
    by (simp add: ex_defs)
  have d: "is_Exception (PyException ''RuntimeError'')"
    by simp
  have e: "snd (close_dep_ctx (Some ?g)) = Inr ()"
    by (simp add: close_dep_ctx_def io_defs)
  have f: "?r = \<lparr>is_err = True, log_slot = None, return_value = PyNone,
                 execution_time = time_stop ex_world - time_start ex_world\<rparr>"
    by (simp add: ex_world_def)
  have g: "\<forall>mw \<in> set (middlewares (broker ?self)).
             \<forall>hook. on_error mw = Some hook \<longrightarrow>
               hook ?m ?r (PyException ''RuntimeError'') = Inr ()"
    by (auto simp: ex_defs)
  have h: "map (\<lambda>mw. EvOnError (mw_name mw) ?m ?r (PyException ''RuntimeError''))
             (filter (\<lambda>mw. on_error mw \<noteq> None) (middlewares (broker ?self))) =
           [EvOnError ''a'' ?m ?r (PyException ''RuntimeError''),
            EvOnError ''b'' ?m ?r (PyException ''RuntimeError'')]"
    by (simp add: ex_receiver_def mw_watch_def mw_plain_def)
  from task_body_Exception_becomes_failed_result [OF a b c d e f g] show ?thesis
    unfolding h .
qed

section \<open>The dependency context is not always closed\<close>

text \<open>
  C4. The context is closed on lines 209 and 210, after the \<open>try\<close>, with no \<open>finally\<close>:
  the close is reached when the body returns and when it raises an \<open>Exception\<close>, and it
  is missed when \<^verbatim>\<open>resolve_kwargs\<close> raises and when the body is cancelled. In both runs
  below the context is opened and \<open>run_task\<close> ends without an \<open>EvCloseCtx\<close>.
\<close>

theorem dependency_context_left_open:
  "run_task ex_world (ex_receiver []) add_func (ex_message ''needs_db'' [PyInt 2, PyInt 3] []) =
     ([EvOpenCtx, EvResolveKwargs], Inl (PyException ''ConnectionError''))
   \<and> run_task ex_world (ex_receiver []) cancelled_func (ex_message ''cancelled'' [] []) =
       ([EvOpenCtx, EvResolveKwargs, EvCall Inline [] []], Inl (PyBaseException ''CancelledError''))"
  by (simp add: run_defs ex_defs)

text \<open>The sibling paths do close it: once, after the body returned or raised an \<open>Exception\<close>.\<close>

lemma dependency_context_closed_after_body:
  assumes "checked_message w self message = ([], Inr m1)"
    and "dependency_graphs self (task_name message) = Some g"
    and "resolve_kwargs g m1 = Inr dep_kwargs"
    and "call target (args m1) (inject_dep_kwargs dep_kwargs (kwargs m1)) = Inr v
         \<or> (\<exists>exc. call target (args m1) (inject_dep_kwargs dep_kwargs (kwargs m1)) = Inl exc
                  \<and> is_Exception exc)"
  shows "filter is_close (fst (run_task w self target message)) = [EvCloseCtx]"
proof -
  let ?m2 = "m1\<lparr>kwargs := inject_dep_kwargs dep_kwargs (kwargs m1)\<rparr>"
  have loop: "filter is_close (fst (on_error_loop mws m r e)) = []" for mws m r e
    by (induction mws) (auto simp: io_defs fst_io_bind split: option.splits sum.splits)
  have run: "run_task w self target message =
          ([EvOpenCtx, EvResolveKwargs] @ fst (finish_task w self target (Some g) ?m2),
           snd (finish_task w self target (Some g) ?m2))"
    using assms(1,2) by (simp add: run_task_phases resolve_dependencies_Some [OF assms(3)])
  from assms(4) show ?thesis
  proof
    assume "call target (args m1) (inject_dep_kwargs dep_kwargs (kwargs m1)) = Inr v"
    then have "call target (args ?m2) (kwargs ?m2) = Inr v" by simp
    then show ?thesis
      by (simp add: run finish_task_returned close_dep_ctx_def io_defs)
  next
    assume "\<exists>exc. call target (args m1) (inject_dep_kwargs dep_kwargs (kwargs m1)) = Inl exc
                  \<and> is_Exception exc"
    then obtain exc where "call target (args ?m2) (kwargs ?m2) = Inl exc" "is_Exception exc"
      by auto
    then show ?thesis
      by (simp add: run finish_task_caught close_dep_ctx_def io_defs loop split: sum.splits)
  qed
qed

section \<open>What leaves \<open>run_task\<close> as an exception\<close>

text \<open>
  C7, as stated, fails in its second half: validation is not the only error path of
  \<open>run_task\<close> that is not turned into a failed result. Here the message passes
  \<open>parse_params\<close>, the resolution of a dependency raises, and \<open>run_task\<close> raises.
\<close>

theorem only_validation_propagates_counterexample:
  "checked_message ex_world (ex_receiver []) (ex_message ''needs_db'' [PyInt 2, PyInt 3] []) =
     ([], Inr (ex_message ''needs_db'' [PyInt 2, PyInt 3] []))
   \<and> snd (run_task ex_world (ex_receiver []) add_func
            (ex_message ''needs_db'' [PyInt 2, PyInt 3] [])) =
       Inl (PyException ''ConnectionError'')"
  by (simp add: run_defs ex_defs)

text \<open>
  C7, amended. With validation enabled, a message whose arguments fail validation makes
  \<open>run_task\<close> raise the validation exception, before anything else happens. It is one of
  five paths on which \<open>run_task\<close> raises instead of returning a result. The others:
  \<^verbatim>\<open>resolve_kwargs\<close> raises; the task body raises what is not an \<open>Exception\<close>;
  \<^verbatim>\<open>dep_ctx.close()\<close> raises (after the body returned or raised an \<open>Exception\<close>); an
  \<open>on_error\<close> hook raises (after the body raised an \<open>Exception\<close>, the context closed and
  the \<open>on_error\<close> hooks of the middlewares before it returned).
\<close>

theorem run_task_propagation_paths:
  "(validate_params self \<and> task_signatures self (task_name message) = Some sg
      \<and> validate w sg (case task_hints self (task_name message) of None \<Rightarrow> [] | Some h \<Rightarrow> h)
            message = None
      \<longrightarrow> run_task w self target message = ([], Inl (PyException ''BadParams'')))
   \<and> (checked_message w self message = ([], Inr m1)
      \<and> dependency_graphs self (task_name message) = Some g \<and> resolve_kwargs g m1 = Inl e
      \<longrightarrow> snd (run_task w self target message) = Inl e)
   \<and> (checked_message w self message = ([], Inr m1)
      \<and> resolve_dependencies (dependency_graphs self (task_name message)) m1 =
            (t, Inr (dep_ctx, m2))
      \<and> call target (args m2) (kwargs m2) = Inl e \<and> \<not> is_Exception e
      \<longrightarrow> snd (run_task w self target message) = Inl e)
   \<and> (checked_message w self message = ([], Inr m1)
      \<and> resolve_dependencies (dependency_graphs self (task_name message)) m1 =
            (t, Inr (Some g, m2))
      \<and> (call target (args m2) (kwargs m2) = Inr v
           \<or> call target (args m2) (kwargs m2) = Inl exc \<and> is_Exception exc)
      \<and> close_ctx g = Inl e
      \<longrightarrow> snd (run_task w self target message) = Inl e)
   \<and> (checked_message w self message = ([], Inr m1)
      \<and> resolve_dependencies (dependency_graphs self (task_name message)) m1 =
            (t, Inr (dep_ctx, m2))
      \<and> call target (args m2) (kwargs m2) = Inl exc \<and> is_Exception exc
      \<and> (case dep_ctx of None \<Rightarrow> True | Some g \<Rightarrow> close_ctx g = Inr ())
      \<and> result = \<lparr>is_err = True, log_slot = None, return_value = PyNone,
                    execution_time = time_stop w - time_start w\<rparr>
      \<and> middlewares (broker self) = before @ mw # after
      \<and> (\<forall>mw' \<in> set before. \<forall>h. on_error mw' = Some h \<longrightarrow> h m2 result exc = Inr ())
      \<and> on_error mw = Some hook \<and> hook m2 result exc = Inl e
      \<longrightarrow> snd (run_task w self target message) = Inl e)"
proof (intro conjI impI)
  assume "validate_params self \<and> task_signatures self (task_name message) = Some sg
      \<and> validate w sg (case task_hints self (task_name message) of None \<Rightarrow> [] | Some h \<Rightarrow> h)
            message = None"
  then show "run_task w self target message = ([], Inl (PyException ''BadParams''))"
    by (simp add: run_task_phases checked_message_def parse_params_def io_defs)
next
  assume "checked_message w self message = ([], Inr m1)
      \<and> dependency_graphs self (task_name message) = Some g \<and> resolve_kwargs g m1 = Inl e"
  then show "snd (run_task w self target message) = Inl e"
    by (simp add: run_task_phases resolve_dependencies_def io_defs)
next
  assume "checked_message w self message = ([], Inr m1)
      \<and> resolve_dependencies (dependency_graphs self (task_name message)) m1 =
            (t, Inr (dep_ctx, m2))
      \<and> call target (args m2) (kwargs m2) = Inl e \<and> \<not> is_Exception e"
  then show "snd (run_task w self target message) = Inl e"
    by (simp add: run_task_resolved finish_task_escaped)
next
  assume h: "checked_message w self message = ([], Inr m1)
      \<and> resolve_dependencies (dependency_graphs self (task_name message)) m1 =
            (t, Inr (Some g, m2))
      \<and> (call target (args m2) (kwargs m2) = Inr v
           \<or> call target (args m2) (kwargs m2) = Inl exc \<and> is_Exception exc)
      \<and> close_ctx g = Inl e"
  then have run: "snd (run_task w self target message) = snd (finish_task w self target (Some g) m2)"
    by (simp add: run_task_resolved)
  from h have close: "snd (close_dep_ctx (Some g)) = Inl e"
    by (simp add: close_dep_ctx_def io_defs)
  from h have "call target (args m2) (kwargs m2) = Inr v
           \<or> call target (args m2) (kwargs m2) = Inl exc \<and> is_Exception exc"
    by simp
  then show "snd (run_task w self target message) = Inl e"
  proof
    assume "call target (args m2) (kwargs m2) = Inr v"
    with close show ?thesis by (simp add: run finish_task_returned)
  next
    assume "call target (args m2) (kwargs m2) = Inl exc \<and> is_Exception exc"
    with close show ?thesis by (simp add: run finish_task_caught)
  qed
next
  assume "checked_message w self message = ([], Inr m1)
      \<and> resolve_dependencies (dependency_graphs self (task_name message)) m1 =
            (t, Inr (dep_ctx, m2))
      \<and> call target (args m2) (kwargs m2) = Inl exc \<and> is_Exception exc
      \<and> (case dep_ctx of None \<Rightarrow> True | Some g \<Rightarrow> close_ctx g = Inr ())
      \<and> result = \<lparr>is_err = True, log_slot = None, return_value = PyNone,
                    execution_time = time_stop w - time_start w\<rparr>
      \<and> middlewares (broker self) = before @ mw # after
      \<and> (\<forall>mw' \<in> set before. \<forall>h. on_error mw' = Some h \<longrightarrow> h m2 result exc = Inr ())
      \<and> on_error mw = Some hook \<and> hook m2 result exc = Inl e"
  then have ck: "checked_message w self message = ([], Inr m1)"
    and rs: "resolve_dependencies (dependency_graphs self (task_name message)) m1 =
               (t, Inr (dep_ctx, m2))"
    and body: "call target (args m2) (kwargs m2) = Inl exc" "is_Exception exc"
    and cl: "case dep_ctx of None \<Rightarrow> True | Some g \<Rightarrow> close_ctx g = Inr ()"
    and res: "result = \<lparr>is_err = True, log_slot = None, return_value = PyNone,
                         execution_time = time_stop w - time_start w\<rparr>"
    and mws: "middlewares (broker self) = before @ mw # after"
    and ok: "\<forall>mw' \<in> set before. \<forall>h. on_error mw' = Some h \<longrightarrow> h m2 result exc = Inr ()"
    and hk: "on_error mw = Some hook" and raised: "hook m2 result exc = Inl e"
    by blast+
  from cl have close: "snd (close_dep_ctx dep_ctx) = Inr ()"
    by (rule close_dep_ctx_ok)
  have mk: "make_result w PyNone (Some exc) = result"
    by (simp add: res make_result_def)
  have loop: "snd (on_error_loop (middlewares (broker self)) m2 result exc) = Inl e"
    by (simp add: mws on_error_loop_hook_raises [OF ok hk raised])
  show "snd (run_task w self target message) = Inl e"
    by (simp add: run_task_resolved [OF ck rs] finish_task_caught [OF body] close mk loop)
qed

theorem run_task_propagation_paths_witness:
  "run_task ex_world (ex_receiver []) add_func (ex_message ''add'' [PyInt 1, PyInt 2, PyInt 3] []) =
     ([], Inl (PyException ''BadParams''))
   \<and> snd (run_task ex_world (ex_receiver []) add_func
            (ex_message ''needs_db'' [PyInt 2, PyInt 3] [])) = Inl (PyException ''ConnectionError'')
   \<and> snd (run_task ex_world (ex_receiver []) quit_func (ex_message ''quit'' [] [])) =
       Inl (PyBaseException ''SystemExit'')
   \<and> snd (run_task ex_world (ex_receiver []) add_func
            (ex_message ''leaky'' [PyInt 2, PyInt 3] [])) = Inl (PyException ''CloseError'')
   \<and> snd (run_task ex_world (ex_receiver [mw_watch ''w'', mw_bad_on_error]) boom_func
            (ex_message ''boom'' [] [])) = Inl (PyException ''HookError'')"
proof (intro conjI)
  let ?m = "ex_message ''add'' [PyInt 1, PyInt 2, PyInt 3] []"
  have "validate_params (ex_receiver []) \<and>
        task_signatures (ex_receiver []) (task_name ?m) = Some [''a'', ''b''] \<and>
        validate ex_world [''a'', ''b'']
          (case task_hints (ex_receiver []) (task_name ?m) of None \<Rightarrow> [] | Some h \<Rightarrow> h) ?m = None"
    by (simp add: ex_defs)
  with run_task_propagation_paths
         [where w = ex_world and self = "ex_receiver []" and message = ?m
            and sg = "[''a'', ''b'']" and target = add_func, THEN conjunct1]
  show "run_task ex_world (ex_receiver []) add_func ?m = ([], Inl (PyException ''BadParams''))"
    by (rule mp)
next
  let ?m = "ex_message ''needs_db'' [PyInt 2, PyInt 3] []"
  let ?g = "\<lparr>resolve_kwargs = (\<lambda>m. Inl (PyException ''ConnectionError'')), close_ctx = Inr ()\<rparr>"
  have "checked_message ex_world (ex_receiver []) ?m = ([], Inr ?m) \<and>
        dependency_graphs (ex_receiver []) (task_name ?m) = Some ?g \<and>
        resolve_kwargs ?g ?m = Inl (PyException ''ConnectionError'')"
    by (simp add: checked_message_def parse_params_def io_defs ex_defs)
  with run_task_propagation_paths
         [where w = ex_world and self = "ex_receiver []" and message = ?m and ?m1.0 = ?m
            and g = ?g and e = "PyException ''ConnectionError''" and target = add_func,
          THEN conjunct2, THEN conjunct1]
  show "snd (run_task ex_world (ex_receiver []) add_func ?m) = Inl (PyException ''ConnectionError'')"
    by (rule mp)
next
  let ?m = "ex_message ''quit'' [] []"
  let ?g = "\<lparr>resolve_kwargs = (\<lambda>m. Inr []), close_ctx = Inr ()\<rparr>"
  have "checked_message ex_world (ex_receiver []) ?m = ([], Inr ?m) \<and>
        resolve_dependencies (dependency_graphs (ex_receiver []) (task_name ?m)) ?m =
          ([EvOpenCtx, EvResolveKwargs], Inr (Some ?g, ?m)) \<and>
        call quit_func (args ?m) (kwargs ?m) = Inl (PyBaseException ''SystemExit'') \<and>
        \<not> is_Exception (PyBaseException ''SystemExit'')"
    by (simp add: checked_message_def parse_params_def resolve_dependencies_def io_defs ex_defs)
  with run_task_propagation_paths
         [where w = ex_world and self = "ex_receiver []" and message = ?m and ?m1.0 = ?m
            and t = "[EvOpenCtx, EvResolveKwargs]" and dep_ctx = "Some ?g" and ?m2.0 = ?m
            and e = "PyBaseException ''SystemExit''" and target = quit_func,
          THEN conjunct2, THEN conjunct2, THEN conjunct1]
  show "snd (run_task ex_world (ex_receiver []) quit_func ?m) = Inl (PyBaseException ''SystemExit'')"
    by (rule mp)
next
  let ?m = "ex_message ''leaky'' [PyInt 2, PyInt 3] []"
  let ?g = "\<lparr>resolve_kwargs = (\<lambda>m. Inr []), close_ctx = Inl (PyException ''CloseError'')\<rparr>"
  have "checked_message ex_world (ex_receiver []) ?m = ([], Inr ?m) \<and>
        resolve_dependencies (dependency_graphs (ex_receiver []) (task_name ?m)) ?m =
          ([EvOpenCtx, EvResolveKwargs], Inr (Some ?g, ?m)) \<and>
        (call add_func (args ?m) (kwargs ?m) = Inr (PyInt 5) \<or>
         call add_func (args ?m) (kwargs ?m) = Inl (PyException ''none'') \<and>
         is_Exception (PyException ''none'')) \<and>
        close_ctx ?g = Inl (PyException ''CloseError'')"
    by (simp add: checked_message_def parse_params_def resolve_dependencies_def
          io_defs ex_defs)
  with run_task_propagation_paths
         [where w = ex_world and self = "ex_receiver []" and message = ?m and ?m1.0 = ?m
            and t = "[EvOpenCtx, EvResolveKwargs]" and g = ?g and ?m2.0 = ?m
            and v = "PyInt 5" and exc = "PyException ''none''"
            and e = "PyException ''CloseError''" and target = add_func,
          THEN conjunct2, THEN conjunct2, THEN conjunct2, THEN conjunct1]
  show "snd (run_task ex_world (ex_receiver []) add_func ?m) = Inl (PyException ''CloseError'')"
    by (rule mp)
next
  let ?m = "ex_message ''boom'' [] []"
  let ?self = "ex_receiver [mw_watch ''w'', mw_bad_on_error]"
  let ?g = "\<lparr>resolve_kwargs = (\<lambda>m. Inr []), close_ctx = Inr ()\<rparr>"
  let ?rf = "\<lparr>is_err = True, log_slot = None, return_value = PyNone,
              execution_time = time_stop ex_world - time_start ex_world\<rparr>"
  have "checked_message ex_world ?self ?m = ([], Inr ?m) \<and>
        resolve_dependencies (dependency_graphs ?self (task_name ?m)) ?m =
          ([EvOpenCtx, EvResolveKwargs], Inr (Some ?g, ?m)) \<and>
        call boom_func (args ?m) (kwargs ?m) = Inl (PyException ''RuntimeError'') \<and>
        is_Exception (PyException ''RuntimeError'') \<and>
        (case Some ?g of None \<Rightarrow> True | Some g \<Rightarrow> close_ctx g = Inr ()) \<and>
        ?rf = \<lparr>is_err = True, log_slot = None, return_value = PyNone,
                execution_time = time_stop ex_world - time_start ex_world\<rparr> \<and>
        middlewares (broker ?self) = [mw_watch ''w''] @ mw_bad_on_error # [] \<and>
        (\<forall>mw' \<in> set [mw_watch ''w'']. \<forall>h. on_error mw' = Some h \<longrightarrow>
           h ?m ?rf (PyException ''RuntimeError'') = Inr ()) \<and>
        on_error mw_bad_on_error = Some (\<lambda>m r e. Inl (PyException ''HookError'')) \<and>
        (\<lambda>m r e. Inl (PyException ''HookError'')) ?m ?rf (PyException ''RuntimeError'') =
          Inl (PyException ''HookError'')"
    by (simp add: checked_message_def parse_params_def resolve_dependencies_def
          io_defs ex_defs)
  with run_task_propagation_paths
         [where w = ex_world and self = ?self and message = ?m and ?m1.0 = ?m
            and t = "[EvOpenCtx, EvResolveKwargs]" and dep_ctx = "Some ?g" and ?m2.0 = ?m
            and exc = "PyException ''RuntimeError''" and result = ?rf
            and before = "[mw_watch ''w'']" and mw = mw_bad_on_error and after = "[]"
            and hook = "\<lambda>m r e. Inl (PyException ''HookError'')"
            and e = "PyException ''HookError''" and target = boom_func,
          THEN conjunct2, THEN conjunct2, THEN conjunct2, THEN conjunct2]
  show "snd (run_task ex_world ?self boom_func ?m) = Inl (PyException ''HookError'')"
    by (rule mp)
qed

section \<open>Messages that are dropped\<close>

text \<open>
  C6. A raw message whose decoding fails (the formatter raises an \<open>Exception\<close>) makes
  \<open>callback\<close> log one warning and return; a decoded message whose task name is not
  registered makes it log the received message at debug level and one warning, and
  return. In both cases nothing else happens: the trace holds no call of a task body, no
  hook invocation and no write to the result backend, and no result is made.
\<close>

theorem undecodable_and_unknown_are_dropped:
  "(formatter_loads (broker self) raw = Inl e \<and> is_Exception e
      \<longrightarrow> callback w self raw raise_err = ([EvLog Warning], Inr ()))
   \<and> (formatter_loads (broker self) raw = Inr m
        \<and> available_tasks (broker self) (task_name m) = None
      \<longrightarrow> callback w self raw raise_err = ([EvLog Debug, EvLog Warning], Inr ()))"
  by (simp add: callback_undecodable callback_unknown_task)

theorem undecodable_and_unknown_are_dropped_witness:
  "callback ex_world (ex_receiver [mw_watch ''w'']) ''{not json'' False = ([EvLog Warning], Inr ())
   \<and> callback ex_world (ex_receiver [mw_watch ''w'']) ''missing'' False =
       ([EvLog Debug, EvLog Warning], Inr ())"
proof (rule conjI)
  have "formatter_loads (broker (ex_receiver [mw_watch ''w''])) ''{not json'' =
          Inl (PyException ''JSONDecodeError'')
        \<and> is_Exception (PyException ''JSONDecodeError'')"
    by (simp add: ex_defs)
  with undecodable_and_unknown_are_dropped
         [where self = "ex_receiver [mw_watch ''w'']" and raw = "''{not json''"
            and e = "PyException ''JSONDecodeError''" and w = ex_world and raise_err = False,
          THEN conjunct1]
  show "callback ex_world (ex_receiver [mw_watch ''w'']) ''{not json'' False = ([EvLog Warning], Inr ())"
    by (rule mp)
next
  have "formatter_loads (broker (ex_receiver [mw_watch ''w''])) ''missing'' =
          Inr (ex_message ''missing'' [] [])
        \<and> available_tasks (broker (ex_receiver [mw_watch ''w'']))
            (task_name (ex_message ''missing'' [] [])) = None"
    by (simp add: ex_defs)
  with undecodable_and_unknown_are_dropped
         [where self = "ex_receiver [mw_watch ''w'']" and raw = "''missing''"
            and m = "ex_message ''missing'' [] []" and w = ex_world and raise_err = False,
          THEN conjunct2]
  show "callback ex_world (ex_receiver [mw_watch ''w'']) ''missing'' False =
          ([EvLog Debug, EvLog Warning], Inr ())"
    by (rule mp)
qed

section \<open>The \<open>pre_execute\<close> hooks thread the message\<close>

text \<open>
  C8, as stated, fails in its last part: the task is looked up again on line 117, under
  the name the hooks left in the message. Here the only \<open>pre_execute\<close> hook returns the
  message renamed to a task that is not registered; \<open>callback\<close> raises \<open>KeyError\<close> and
  \<open>run_task\<close> is never called with the transformed message.
\<close>

theorem pre_execute_renaming_counterexample:
  "(\<exists>hook. pre_execute mw_rename = Some hook
       \<and> hook (ex_message ''add'' [PyInt 2, PyInt 3] []) =
          Inr (ex_message ''gone'' [PyInt 2, PyInt 3] []))
   \<and> callback ex_world (ex_receiver [mw_rename]) ''add 2 3'' False =
       ([EvLog Debug, EvLog Debug,
         EvPreExecute ''rename'' (ex_message ''add'' [PyInt 2, PyInt 3] []), EvLog Info],
        Inl (PyException ''KeyError''))"
  by (simp add: run_defs ex_defs)

text \<open>
  C8, amended. For a decoded message of a registered task, \<open>callback\<close> invokes the
  \<open>pre_execute\<close> hooks of exactly the middlewares that override \<open>pre_execute\<close>, in
  registration order (\<open>hooks\<close>), each given the message the one before it returned,
  until one raises. If all of them return (hook \<open>i\<close> is given \<open>xs ! i\<close> and returns
  \<open>xs ! Suc i\<close>) and the name in the last message is registered, the trace goes on with
  the run of \<open>run_task\<close> on that last message; if that name is not registered, \<open>callback\<close>
  raises \<open>KeyError\<close> without calling \<open>run_task\<close>. If hook \<open>n\<close> raises (after the hooks
  before it returned, \<open>ys\<close>), \<open>callback\<close> ends there with that exception: no later hook is
  invoked and \<open>run_task\<close> is not called.
\<close>

theorem pre_execute_in_registration_order:
  assumes "formatter_loads (broker self) raw = Inr m0"
    and "available_tasks (broker self) (task_name m0) \<noteq> None"
    and "hooks = pre_execute_hooks (middlewares (broker self))"
  shows "map fst hooks =
           map mw_name (filter (\<lambda>mw. pre_execute mw \<noteq> None) (middlewares (broker self)))
       \<and> (length xs = Suc (length hooks) \<and> xs ! 0 = m0
            \<and> (\<forall>i < length hooks. snd (hooks ! i) (xs ! i) = Inr (xs ! Suc i))
            \<and> available_tasks (broker self) (task_name (last xs)) = Some target
          \<longrightarrow> (\<exists>rest. fst (callback w self raw raise_err) =
                 [EvLog Debug, EvLog Debug]
                 @ map (\<lambda>i. EvPreExecute (fst (hooks ! i)) (xs ! i)) [0..<length hooks]
                 @ [EvLog Info] @ fst (run_task w self target (last xs)) @ rest))
       \<and> (length xs = Suc (length hooks) \<and> xs ! 0 = m0
            \<and> (\<forall>i < length hooks. snd (hooks ! i) (xs ! i) = Inr (xs ! Suc i))
            \<and> available_tasks (broker self) (task_name (last xs)) = None
          \<longrightarrow> callback w self raw raise_err =
                ([EvLog Debug, EvLog Debug]
                 @ map (\<lambda>i. EvPreExecute (fst (hooks ! i)) (xs ! i)) [0..<length hooks]
                 @ [EvLog Info],
                 Inl (PyException ''KeyError'')))
       \<and> (n < length hooks \<and> length ys = Suc n \<and> ys ! 0 = m0
            \<and> (\<forall>i < n. snd (hooks ! i) (ys ! i) = Inr (ys ! Suc i))
            \<and> snd (hooks ! n) (ys ! n) = Inl e
          \<longrightarrow> callback w self raw raise_err =
                ([EvLog Debug, EvLog Debug]
                 @ map (\<lambda>i. EvPreExecute (fst (hooks ! i)) (ys ! i)) [0..<Suc n],
                 Inl e))"
proof (intro conjI impI)
  show "map fst hooks =
           map mw_name (filter (\<lambda>mw. pre_execute mw \<noteq> None) (middlewares (broker self)))"
    by (simp add: assms(3) pre_execute_hooks_names)
next
  assume "length xs = Suc (length hooks) \<and> xs ! 0 = m0
            \<and> (\<forall>i < length hooks. snd (hooks ! i) (xs ! i) = Inr (xs ! Suc i))
            \<and> available_tasks (broker self) (task_name (last xs)) = Some target"
  then have len: "length xs = Suc (length (pre_execute_hooks (middlewares (broker self))))"
    and x0: "xs ! 0 = m0"
    and chain: "\<forall>i < length (pre_execute_hooks (middlewares (broker self))).
                  snd (pre_execute_hooks (middlewares (broker self)) ! i) (xs ! i) =
                    Inr (xs ! Suc i)"
    and tg: "available_tasks (broker self) (task_name (last xs)) = Some target"
    unfolding assms(3) by blast+
  have "fst (callback w self raw raise_err) =
          [EvLog Debug, EvLog Debug]
          @ map (\<lambda>i. EvPreExecute (fst (hooks ! i)) (xs ! i)) [0..<length hooks]
          @ [EvLog Info] @ fst (run_task w self target (last xs))
          @ (case snd (run_task w self target (last xs)) of
               Inl e \<Rightarrow> []
             | Inr (m', r) \<Rightarrow> fst (after_run self raise_err m' r))"
    unfolding assms(3)
    by (simp add: callback_dispatch [OF assms(1,2)]
          dispatch_run [OF pre_execute_loop_chain [OF len x0 chain] tg])
  then show "\<exists>rest. fst (callback w self raw raise_err) =
                 [EvLog Debug, EvLog Debug]
                 @ map (\<lambda>i. EvPreExecute (fst (hooks ! i)) (xs ! i)) [0..<length hooks]
                 @ [EvLog Info] @ fst (run_task w self target (last xs)) @ rest"
    by blast
next
  assume "length xs = Suc (length hooks) \<and> xs ! 0 = m0
            \<and> (\<forall>i < length hooks. snd (hooks ! i) (xs ! i) = Inr (xs ! Suc i))
            \<and> available_tasks (broker self) (task_name (last xs)) = None"
  then have len: "length xs = Suc (length (pre_execute_hooks (middlewares (broker self))))"
    and x0: "xs ! 0 = m0"
    and chain: "\<forall>i < length (pre_execute_hooks (middlewares (broker self))).
                  snd (pre_execute_hooks (middlewares (broker self)) ! i) (xs ! i) =
                    Inr (xs ! Suc i)"
    and gone: "available_tasks (broker self) (task_name (last xs)) = None"
    unfolding assms(3) by blast+
  show "callback w self raw raise_err =
          ([EvLog Debug, EvLog Debug]
           @ map (\<lambda>i. EvPreExecute (fst (hooks ! i)) (xs ! i)) [0..<length hooks]
           @ [EvLog Info],
           Inl (PyException ''KeyError''))"
    unfolding assms(3)
    by (simp add: callback_dispatch [OF assms(1,2)]
          dispatch_renamed [OF pre_execute_loop_chain [OF len x0 chain] gone])
next
  assume "n < length hooks \<and> length ys = Suc n \<and> ys ! 0 = m0
            \<and> (\<forall>i < n. snd (hooks ! i) (ys ! i) = Inr (ys ! Suc i))
            \<and> snd (hooks ! n) (ys ! n) = Inl e"
  then have n: "n < length (pre_execute_hooks (middlewares (broker self)))"
    and len: "length ys = Suc n" and y0: "ys ! 0 = m0"
    and chain: "\<forall>i < n. snd (pre_execute_hooks (middlewares (broker self)) ! i) (ys ! i) =
                  Inr (ys ! Suc i)"
    and raised: "snd (pre_execute_hooks (middlewares (broker self)) ! n) (ys ! n) = Inl e"
    unfolding assms(3) by blast+
  show "callback w self raw raise_err =
          ([EvLog Debug, EvLog Debug]
           @ map (\<lambda>i. EvPreExecute (fst (hooks ! i)) (ys ! i)) [0..<Suc n],
           Inl e)"
    unfolding assms(3)
    by (simp add: callback_dispatch [OF assms(1,2)]
          dispatch_pre_execute_raised [OF pre_execute_loop_chain_raises [OF n len y0 chain raised]])
qed

theorem pre_execute_in_registration_order_witness:
  "(\<exists>rest.
      fst (callback ex_world
             (ex_receiver [mw_append ''A'' (PyInt 2), mw_plain, mw_append ''B'' (PyInt 3)])
             ''add'' False) =
        [EvLog Debug, EvLog Debug,
         EvPreExecute ''A'' (ex_message ''add'' [] []),
         EvPreExecute ''B'' (ex_message ''add'' [PyInt 2] []),
         EvLog Info]
        @ fst (run_task ex_world
                 (ex_receiver [mw_append ''A'' (PyInt 2), mw_plain, mw_append ''B'' (PyInt 3)])
                 add_func (ex_message ''add'' [PyInt 2, PyInt 3] []))
        @ rest)
   \<and> callback ex_world (ex_receiver [mw_rename]) ''add 2 3'' False =
       ([EvLog Debug, EvLog Debug,
         EvPreExecute ''rename'' (ex_message ''add'' [PyInt 2, PyInt 3] []), EvLog Info],
        Inl (PyException ''KeyError''))
   \<and> callback ex_world
         (ex_receiver [mw_append ''A'' (PyInt 2), mw_bad_pre, mw_append ''B'' (PyInt 3)])
         ''add'' False =
       ([EvLog Debug, EvLog Debug,
         EvPreExecute ''A'' (ex_message ''add'' [] []),
         EvPreExecute ''bad_pre'' (ex_message ''add'' [PyInt 2] [])],
        Inl (PyException ''HookError''))"
proof (intro conjI)
  let ?bare = "ex_message ''add'' [] []"
  let ?one = "ex_message ''add'' [PyInt 2] []"
  let ?two = "ex_message ''add'' [PyInt 2, PyInt 3] []"
  let ?gone = "ex_message ''gone'' [PyInt 2, PyInt 3] []"
  let ?hA = "\<lambda>m. Inr (m\<lparr>args := args m @ [PyInt 2]\<rparr>) :: exn + taskiq_message"
  let ?hB = "\<lambda>m. Inr (m\<lparr>args := args m @ [PyInt 3]\<rparr>) :: exn + taskiq_message"
  let ?hbad = "\<lambda>m. Inl (PyException ''HookError'') :: exn + taskiq_message"
  let ?hren = "\<lambda>m. Inr (m\<lparr>task_name := ''gone''\<rparr>) :: exn + taskiq_message"
  have loads: "formatter_loads (broker (ex_receiver mws)) ''add'' = Inr ?bare"
    "formatter_loads (broker (ex_receiver mws)) ''add 2 3'' = Inr ?two" for mws
    by (simp_all add: ex_defs)
  have known: "available_tasks (broker (ex_receiver mws)) (task_name ?bare) \<noteq> None"
    "available_tasks (broker (ex_receiver mws)) (task_name ?two) \<noteq> None" for mws
    by (simp_all add: ex_defs)
  {
    let ?self = "ex_receiver [mw_append ''A'' (PyInt 2), mw_plain, mw_append ''B'' (PyInt 3)]"
    let ?hooks = "[(''A'', ?hA), (''B'', ?hB)]"
    let ?xs = "[?bare, ?one, ?two]"
    have hooks: "?hooks = pre_execute_hooks (middlewares (broker ?self))"
      by (simp add: ex_receiver_def mw_append_def mw_plain_def)
    have "length ?xs = Suc (length ?hooks) \<and> ?xs ! 0 = ?bare
          \<and> (\<forall>i < length ?hooks. snd (?hooks ! i) (?xs ! i) = Inr (?xs ! Suc i))
          \<and> available_tasks (broker ?self) (task_name (last ?xs)) = Some add_func"
      by (simp add: ex_receiver_def ex_tasks_def ex_message_def less_Suc_eq)
    with pre_execute_in_registration_order
           [OF loads(1) known(1) hooks, where xs = ?xs and target = add_func and w = ex_world
              and raise_err = False, THEN conjunct2, THEN conjunct1]
    have "\<exists>rest. fst (callback ex_world ?self ''add'' False) =
            [EvLog Debug, EvLog Debug]
            @ map (\<lambda>i. EvPreExecute (fst (?hooks ! i)) (?xs ! i)) [0..<length ?hooks]
            @ [EvLog Info] @ fst (run_task ex_world ?self add_func (last ?xs)) @ rest"
      by (rule mp)
    then show "\<exists>rest. fst (callback ex_world ?self ''add'' False) =
            [EvLog Debug, EvLog Debug, EvPreExecute ''A'' ?bare, EvPreExecute ''B'' ?one,
             EvLog Info]
            @ fst (run_task ex_world ?self add_func ?two) @ rest"
      by (simp add: upt_rec)
  }
  {
    let ?self = "ex_receiver [mw_rename]"
    let ?hooks = "[(''rename'', ?hren)]"
    let ?xs = "[?two, ?gone]"
    have hooks: "?hooks = pre_execute_hooks (middlewares (broker ?self))"
      by (simp add: ex_receiver_def mw_rename_def)
    have "length ?xs = Suc (length ?hooks) \<and> ?xs ! 0 = ?two
          \<and> (\<forall>i < length ?hooks. snd (?hooks ! i) (?xs ! i) = Inr (?xs ! Suc i))
          \<and> available_tasks (broker ?self) (task_name (last ?xs)) = None"
      by (simp add: ex_receiver_def ex_tasks_def ex_message_def)
    with pre_execute_in_registration_order
           [OF loads(2) known(2) hooks, where xs = ?xs and w = ex_world and raise_err = False,
            THEN conjunct2, THEN conjunct2, THEN conjunct1]
    have "callback ex_world ?self ''add 2 3'' False =
            ([EvLog Debug, EvLog Debug]
             @ map (\<lambda>i. EvPreExecute (fst (?hooks ! i)) (?xs ! i)) [0..<length ?hooks]
             @ [EvLog Info],
             Inl (PyException ''KeyError''))"
      by (rule mp)
    then show "callback ex_world ?self ''add 2 3'' False =
            ([EvLog Debug, EvLog Debug, EvPreExecute ''rename'' ?two, EvLog Info],
             Inl (PyException ''KeyError''))"
      by (simp add: upt_rec)
  }
  {
    let ?self = "ex_receiver [mw_append ''A'' (PyInt 2), mw_bad_pre, mw_append ''B'' (PyInt 3)]"
    let ?hooks = "[(''A'', ?hA), (''bad_pre'', ?hbad), (''B'', ?hB)]"
    let ?ys = "[?bare, ?one]"
    have hooks: "?hooks = pre_execute_hooks (middlewares (broker ?self))"
      by (simp add: ex_receiver_def mw_append_def mw_bad_pre_def mw_plain_def)
    have "Suc 0 < length ?hooks \<and> length ?ys = Suc (Suc 0) \<and> ?ys ! 0 = ?bare
          \<and> (\<forall>i < Suc 0. snd (?hooks ! i) (?ys ! i) = Inr (?ys ! Suc i))
          \<and> snd (?hooks ! Suc 0) (?ys ! Suc 0) = Inl (PyException ''HookError'')"
      by (simp add: ex_message_def)
    with pre_execute_in_registration_order
           [OF loads(1) known(1) hooks, where ys = ?ys and n = "Suc 0"
              and e = "PyException ''HookError''" and w = ex_world and raise_err = False,
            THEN conjunct2, THEN conjunct2, THEN conjunct2]
    have "callback ex_world ?self ''add'' False =
            ([EvLog Debug, EvLog Debug]
             @ map (\<lambda>i. EvPreExecute (fst (?hooks ! i)) (?ys ! i)) [0..<Suc (Suc 0)],
             Inl (PyException ''HookError''))"
      by (rule mp)
    then show "callback ex_world ?self ''add'' False =
            ([EvLog Debug, EvLog Debug, EvPreExecute ''A'' ?bare, EvPreExecute ''bad_pre'' ?one],
             Inl (PyException ''HookError''))"
      by (simp add: upt_rec)
  }
qed

section \<open>Exceptions of middleware hooks\<close>

text \<open>A hook loop raises only what one of its hooks raised.\<close>

lemma pre_execute_loop_raises:
  "snd (pre_execute_loop mws m) = Inl e \<Longrightarrow>
     \<exists>mw \<in> set mws. \<exists>hook m'. pre_execute mw = Some hook \<and> hook m' = Inl e"
proof (induction mws arbitrary: m)
  case Nil
  then show ?case by (simp add: io_defs)
next
  case (Cons mw rest)
  show ?case
  proof (cases "pre_execute mw")
    case None
    with Cons show ?thesis by auto
  next
    case (Some hook)
    show ?thesis
    proof (cases "hook m")
      case (Inl e')
      with Cons.prems Some have "e' = e" by (simp add: io_defs)
      with Inl Some show ?thesis by auto
    next
      case (Inr m1)
      with Cons.prems Some have "snd (pre_execute_loop rest m1) = Inl e" by (simp add: io_defs)
      from Cons.IH [OF this] show ?thesis by auto
    qed
  qed
qed

lemma on_error_loop_raises:
  "snd (on_error_loop mws m r exc) = Inl e \<Longrightarrow>
     \<exists>mw \<in> set mws. \<exists>hook. on_error mw = Some hook \<and> hook m r exc = Inl e"
  by (induction mws) (auto simp: io_defs snd_io_bind split: option.splits sum.splits)

lemma post_execute_loop_raises:
  "snd (post_execute_loop mws m r) = Inl e \<Longrightarrow>
     \<exists>mw \<in> set mws. \<exists>hook. post_execute mw = Some hook \<and> hook m r = Inl e"
  by (induction mws) (auto simp: io_defs snd_io_bind split: option.splits sum.splits)

lemma post_save_loop_raises:
  "snd (post_save_loop mws m r) = Inl e \<Longrightarrow>
     \<exists>mw \<in> set mws. \<exists>hook. post_save mw = Some hook \<and> hook m r = Inl e"
  by (induction mws) (auto simp: io_defs snd_io_bind split: option.splits sum.splits)

text \<open>
  C3, as stated, fails for \<open>post_save\<close>: the hooks run inside the \<open>try\<close> of lines 123 to
  135. With \<open>raise_err\<close> false, the \<open>Exception\<close> of a \<open>post_save\<close> hook is logged and
  \<open>callback\<close> returns normally.
\<close>

theorem hook_exception_suppressed_counterexample:
  "(\<exists>hook. post_save mw_bad_save = Some hook
       \<and> hook (ex_message ''add'' [PyInt 2, PyInt 3] [])
            \<lparr>is_err = False, log_slot = None, return_value = PyInt 5, execution_time = 2\<rparr> =
          Inl (PyException ''HookError''))
   \<and> callback ex_world (ex_receiver [mw_bad_save]) ''add 2 3'' False =
       ([EvLog Debug, EvLog Debug, EvLog Info, EvOpenCtx, EvResolveKwargs,
         EvCall Executor [PyInt 2, PyInt 3] [], EvCloseCtx,
         EvSetResult ''id-1''
           \<lparr>is_err = False, log_slot = None, return_value = PyInt 5, execution_time = 2\<rparr>,
         EvPostSave ''bad_save'' (ex_message ''add'' [PyInt 2, PyInt 3] [])
           \<lparr>is_err = False, log_slot = None, return_value = PyInt 5, execution_time = 2\<rparr>,
         EvLog Error],
        Inr ())"
  by (simp add: run_defs ex_defs)

text \<open>
  C3, amended. For a decoded message of a registered task, a hook that is invoked and
  raises \<open>e\<close> ends \<open>callback\<close> as follows. A \<open>pre_execute\<close> hook (hook \<open>n\<close>, after the
  hooks before it returned, threading the message): \<open>callback\<close> raises \<open>e\<close>. An \<open>on_error\<close>
  hook (after the body raised an \<open>Exception\<close> and the earlier \<open>on_error\<close> hooks returned):
  \<open>run_task\<close> and \<open>callback\<close> raise \<open>e\<close>. A \<open>post_execute\<close> hook (after the earlier ones
  returned): \<open>callback\<close> raises \<open>e\<close>. All three whatever \<open>raise_err\<close> is. A \<open>post_save\<close>
  hook (after the result was stored and the earlier \<open>post_save\<close> hooks returned):
  \<open>callback\<close> raises \<open>e\<close> when \<open>raise_err\<close> is true or \<open>e\<close> is not an \<open>Exception\<close>; otherwise
  \<open>e\<close> is logged and swallowed.
\<close>

theorem hook_exception_propagation:
  assumes "formatter_loads (broker self) raw = Inr m0"
    and "available_tasks (broker self) (task_name m0) \<noteq> None"
  shows
    "(hooks = pre_execute_hooks (middlewares (broker self))
        \<and> n < length hooks \<and> length xs = Suc n \<and> xs ! 0 = m0
        \<and> (\<forall>i < n. snd (hooks ! i) (xs ! i) = Inr (xs ! Suc i))
        \<and> snd (hooks ! n) (xs ! n) = Inl e
        \<longrightarrow> snd (callback w self raw raise_err) = Inl e)
     \<and> (pre_execute_loop (middlewares (broker self)) m0 = (t0, Inr m)
        \<and> available_tasks (broker self) (task_name m) = Some target
        \<and> checked_message w self m = ([], Inr m1)
        \<and> resolve_dependencies (dependency_graphs self (task_name m)) m1 = (t1, Inr (dep_ctx, m2))
        \<and> call target (args m2) (kwargs m2) = Inl exc \<and> is_Exception exc
        \<and> (case dep_ctx of None \<Rightarrow> True | Some g \<Rightarrow> close_ctx g = Inr ())
        \<and> result = \<lparr>is_err = True, log_slot = None, return_value = PyNone,
                      execution_time = time_stop w - time_start w\<rparr>
        \<and> middlewares (broker self) = before @ mw # after
        \<and> (\<forall>mw' \<in> set before. \<forall>h. on_error mw' = Some h \<longrightarrow> h m2 result exc = Inr ())
        \<and> on_error mw = Some hook \<and> hook m2 result exc = Inl e
        \<longrightarrow> snd (run_task w self target m) = Inl e \<and> snd (callback w self raw raise_err) = Inl e)
     \<and> (pre_execute_loop (middlewares (broker self)) m0 = (t0, Inr m)
        \<and> available_tasks (broker self) (task_name m) = Some target
        \<and> snd (run_task w self target m) = Inr (m', r)
        \<and> middlewares (broker self) = before @ mw # after
        \<and> (\<forall>mw' \<in> set before. \<forall>h. post_execute mw' = Some h \<longrightarrow> h m' r = Inr ())
        \<and> post_execute mw = Some hook' \<and> hook' m' r = Inl e
        \<longrightarrow> snd (callback w self raw raise_err) = Inl e)
     \<and> (pre_execute_loop (middlewares (broker self)) m0 = (t0, Inr m)
        \<and> available_tasks (broker self) (task_name m) = Some target
        \<and> snd (run_task w self target m) = Inr (m', r)
        \<and> (\<forall>mw' \<in> set (middlewares (broker self)).
              \<forall>h. post_execute mw' = Some h \<longrightarrow> h m' r = Inr ())
        \<and> set_result (broker self) (task_id m') r = Inr ()
        \<and> middlewares (broker self) = before @ mw # after
        \<and> (\<forall>mw' \<in> set before. \<forall>h. post_save mw' = Some h \<longrightarrow> h m' r = Inr ())
        \<and> post_save mw = Some hook' \<and> hook' m' r = Inl e
        \<longrightarrow> snd (callback w self raw raise_err) =
              (if is_Exception e \<and> \<not> raise_err then Inr () else Inl e))"
proof -
  have cb: "snd (callback w self raw raise_err) = snd (dispatch w self raise_err m0)"
    by (simp add: callback_dispatch [OF assms])
  show ?thesis
  proof (intro conjI impI)
    assume h: "hooks = pre_execute_hooks (middlewares (broker self))
        \<and> n < length hooks \<and> length xs = Suc n \<and> xs ! 0 = m0
        \<and> (\<forall>i < n. snd (hooks ! i) (xs ! i) = Inr (xs ! Suc i))
        \<and> snd (hooks ! n) (xs ! n) = Inl e"
    then have "snd (pre_execute_loop (middlewares (broker self)) m0) = Inl e"
      using pre_execute_loop_chain_raises [of n "middlewares (broker self)" xs m0 e] by auto
    then show "snd (callback w self raw raise_err) = Inl e"
      by (simp add: cb dispatch_pre_execute_raises)
  next
    assume h: "pre_execute_loop (middlewares (broker self)) m0 = (t0, Inr m)
        \<and> available_tasks (broker self) (task_name m) = Some target
        \<and> checked_message w self m = ([], Inr m1)
        \<and> resolve_dependencies (dependency_graphs self (task_name m)) m1 = (t1, Inr (dep_ctx, m2))
        \<and> call target (args m2) (kwargs m2) = Inl exc \<and> is_Exception exc
        \<and> (case dep_ctx of None \<Rightarrow> True | Some g \<Rightarrow> close_ctx g = Inr ())
        \<and> result = \<lparr>is_err = True, log_slot = None, return_value = PyNone,
                      execution_time = time_stop w - time_start w\<rparr>
        \<and> middlewares (broker self) = before @ mw # after
        \<and> (\<forall>mw' \<in> set before. \<forall>h. on_error mw' = Some h \<longrightarrow> h m2 result exc = Inr ())
        \<and> on_error mw = Some hook \<and> hook m2 result exc = Inl e"
    then have pre: "pre_execute_loop (middlewares (broker self)) m0 = (t0, Inr m)"
      and tg: "available_tasks (broker self) (task_name m) = Some target"
      and ck: "checked_message w self m = ([], Inr m1)"
      and rs: "resolve_dependencies (dependency_graphs self (task_name m)) m1 =
                 (t1, Inr (dep_ctx, m2))"
      and body: "call target (args m2) (kwargs m2) = Inl exc" "is_Exception exc"
      and cl: "case dep_ctx of None \<Rightarrow> True | Some g \<Rightarrow> close_ctx g = Inr ()"
      and res: "result = \<lparr>is_err = True, log_slot = None, return_value = PyNone,
                           execution_time = time_stop w - time_start w\<rparr>"
      and mws: "middlewares (broker self) = before @ mw # after"
      and ok: "\<forall>mw' \<in> set before. \<forall>h. on_error mw' = Some h \<longrightarrow> h m2 result exc = Inr ()"
      and hk: "on_error mw = Some hook" and raised: "hook m2 result exc = Inl e"
      by blast+
    from cl have close: "snd (close_dep_ctx dep_ctx) = Inr ()"
      by (rule close_dep_ctx_ok)
    have mk: "make_result w PyNone (Some exc) = result"
      by (simp add: res make_result_def)
    have loop: "snd (on_error_loop (middlewares (broker self)) m2 result exc) = Inl e"
      by (simp add: mws on_error_loop_hook_raises [OF ok hk raised])
    show run: "snd (run_task w self target m) = Inl e"
      by (simp add: run_task_resolved [OF ck rs] finish_task_caught [OF body] close mk loop)
    show "snd (callback w self raw raise_err) = Inl e"
      by (simp add: cb dispatch_run [OF pre tg] run)
  next
    assume h: "pre_execute_loop (middlewares (broker self)) m0 = (t0, Inr m)
        \<and> available_tasks (broker self) (task_name m) = Some target
        \<and> snd (run_task w self target m) = Inr (m', r)
        \<and> middlewares (broker self) = before @ mw # after
        \<and> (\<forall>mw' \<in> set before. \<forall>h. post_execute mw' = Some h \<longrightarrow> h m' r = Inr ())
        \<and> post_execute mw = Some hook' \<and> hook' m' r = Inl e"
    then have pre: "pre_execute_loop (middlewares (broker self)) m0 = (t0, Inr m)"
      and tg: "available_tasks (broker self) (task_name m) = Some target"
      and run: "snd (run_task w self target m) = Inr (m', r)"
      and mws: "middlewares (broker self) = before @ mw # after"
      and ok: "\<forall>mw' \<in> set before. \<forall>h. post_execute mw' = Some h \<longrightarrow> h m' r = Inr ()"
      and hk: "post_execute mw = Some hook'" and raised: "hook' m' r = Inl e"
      by blast+
    have loop: "snd (post_execute_loop (middlewares (broker self)) m' r) = Inl e"
      by (simp add: mws post_execute_loop_hook_raises [OF ok hk raised])
    show "snd (callback w self raw raise_err) = Inl e"
      by (simp add: cb dispatch_run [OF pre tg] run after_run_def snd_io_bind loop)
  next
    assume h: "pre_execute_loop (middlewares (broker self)) m0 = (t0, Inr m)
        \<and> available_tasks (broker self) (task_name m) = Some target
        \<and> snd (run_task w self target m) = Inr (m', r)
        \<and> (\<forall>mw' \<in> set (middlewares (broker self)).
              \<forall>h. post_execute mw' = Some h \<longrightarrow> h m' r = Inr ())
        \<and> set_result (broker self) (task_id m') r = Inr ()
        \<and> middlewares (broker self) = before @ mw # after
        \<and> (\<forall>mw' \<in> set before. \<forall>h. post_save mw' = Some h \<longrightarrow> h m' r = Inr ())
        \<and> post_save mw = Some hook' \<and> hook' m' r = Inl e"
    then have pre: "pre_execute_loop (middlewares (broker self)) m0 = (t0, Inr m)"
      and tg: "available_tasks (broker self) (task_name m) = Some target"
      and run: "snd (run_task w self target m) = Inr (m', r)"
      and mws: "middlewares (broker self) = before @ mw # after"
      and all: "\<forall>mw' \<in> set (middlewares (broker self)).
                  \<forall>h. post_execute mw' = Some h \<longrightarrow> h m' r = Inr ()"
      and stored: "set_result (broker self) (task_id m') r = Inr ()"
      and ok: "\<forall>mw' \<in> set before. \<forall>h. post_save mw' = Some h \<longrightarrow> h m' r = Inr ()"
      and hk: "post_save mw = Some hook'" and raised: "hook' m' r = Inl e"
      by blast+
    have post: "snd (post_execute_loop (middlewares (broker self)) m' r) = Inr ()"
      by (simp add: post_execute_loop_all [OF all])
    have loop: "snd (post_save_loop (middlewares (broker self)) m' r) = Inl e"
      by (simp add: mws post_save_loop_hook_raises [OF ok hk raised])
    show "snd (callback w self raw raise_err) =
              (if is_Exception e \<and> \<not> raise_err then Inr () else Inl e)"
      by (simp add: cb dispatch_run [OF pre tg] run after_run_def snd_io_bind post
            save_result_post_save_raises [OF stored loop])
  qed
qed

theorem hook_exception_propagation_witness:
  "snd (callback ex_world (ex_receiver [mw_append ''A'' (PyInt 2), mw_bad_pre]) ''add'' False) =
     Inl (PyException ''HookError'')
   \<and> snd (callback ex_world (ex_receiver [mw_watch ''w'', mw_bad_on_error]) ''boom'' False) =
       Inl (PyException ''HookError'')
   \<and> snd (callback ex_world (ex_receiver [mw_watch ''w'', mw_bad_post]) ''add 2 3'' False) =
       Inl (PyException ''HookError'')
   \<and> snd (callback ex_world (ex_receiver [mw_watch ''w'', mw_bad_save]) ''add 2 3'' True) =
       Inl (PyException ''HookError'')"
proof (intro conjI)
  let ?e = "PyException ''HookError''"
  let ?bare = "ex_message ''add'' [] []"
  let ?add = "ex_message ''add'' [PyInt 2, PyInt 3] []"
  let ?boom = "ex_message ''boom'' [] []"
  let ?g = "\<lparr>resolve_kwargs = (\<lambda>m. Inr []), close_ctx = Inr ()\<rparr>"
  let ?r = "\<lparr>is_err = False, log_slot = None, return_value = PyInt 5, execution_time = 2\<rparr>"
  let ?rf = "\<lparr>is_err = True, log_slot = None, return_value = PyNone,
              execution_time = time_stop ex_world - time_start ex_world\<rparr>"
  have loads: "formatter_loads (broker (ex_receiver mws)) ''add 2 3'' = Inr ?add"
    "formatter_loads (broker (ex_receiver mws)) ''boom'' = Inr ?boom"
    "formatter_loads (broker (ex_receiver mws)) ''add'' = Inr ?bare" for mws
    by (simp_all add: ex_defs)
  have known: "available_tasks (broker (ex_receiver mws)) (task_name ?add) \<noteq> None"
    "available_tasks (broker (ex_receiver mws)) (task_name ?boom) \<noteq> None"
    "available_tasks (broker (ex_receiver mws)) (task_name ?bare) \<noteq> None" for mws
    by (simp_all add: ex_defs)
  {
    let ?self = "ex_receiver [mw_append ''A'' (PyInt 2), mw_bad_pre]"
    let ?hooks = "[(''A'', \<lambda>m. Inr (m\<lparr>args := args m @ [PyInt 2]\<rparr>)),
                   (''bad_pre'', \<lambda>m. Inl ?e)] :: (string \<times> (taskiq_message \<Rightarrow> exn + taskiq_message)) list"
    let ?xs = "[?bare, ex_message ''add'' [PyInt 2] []]"
    have "?hooks = pre_execute_hooks (middlewares (broker ?self))
        \<and> Suc 0 < length ?hooks \<and> length ?xs = Suc (Suc 0) \<and> ?xs ! 0 = ?bare
        \<and> (\<forall>i < Suc 0. snd (?hooks ! i) (?xs ! i) = Inr (?xs ! Suc i))
        \<and> snd (?hooks ! Suc 0) (?xs ! Suc 0) = Inl ?e"
      by (simp add: ex_receiver_def mw_append_def mw_bad_pre_def mw_plain_def ex_message_def)
    with hook_exception_propagation
           [OF loads(3) known(3), where e = ?e and w = ex_world and raise_err = False
              and hooks = ?hooks and n = "Suc 0" and xs = ?xs,
            THEN conjunct1]
    show "snd (callback ex_world ?self ''add'' False) = Inl ?e"
      by (rule mp)
  }
  {
    let ?self = "ex_receiver [mw_watch ''w'', mw_bad_on_error]"
    have "pre_execute_loop (middlewares (broker ?self)) ?boom = ([], Inr ?boom)
        \<and> available_tasks (broker ?self) (task_name ?boom) = Some boom_func
        \<and> checked_message ex_world ?self ?boom = ([], Inr ?boom)
        \<and> resolve_dependencies (dependency_graphs ?self (task_name ?boom)) ?boom =
            ([EvOpenCtx, EvResolveKwargs], Inr (Some ?g, ?boom))
        \<and> call boom_func (args ?boom) (kwargs ?boom) = Inl (PyException ''RuntimeError'')
        \<and> is_Exception (PyException ''RuntimeError'')
        \<and> (case Some ?g of None \<Rightarrow> True | Some g \<Rightarrow> close_ctx g = Inr ())
        \<and> ?rf = \<lparr>is_err = True, log_slot = None, return_value = PyNone,
                   execution_time = time_stop ex_world - time_start ex_world\<rparr>
        \<and> middlewares (broker ?self) = [mw_watch ''w''] @ mw_bad_on_error # []
        \<and> (\<forall>mw' \<in> set [mw_watch ''w'']. \<forall>h. on_error mw' = Some h \<longrightarrow>
              h ?boom ?rf (PyException ''RuntimeError'') = Inr ())
        \<and> on_error mw_bad_on_error = Some (\<lambda>m r e. Inl ?e)
        \<and> (\<lambda>m r e. Inl ?e) ?boom ?rf (PyException ''RuntimeError'') = Inl ?e"
      by (simp add: checked_message_def parse_params_def resolve_dependencies_def io_defs ex_defs)
    with hook_exception_propagation
           [OF loads(2) known(2), where e = ?e and w = ex_world and raise_err = False
              and ?t0.0 = "[]" and m = ?boom and target = boom_func and ?m1.0 = ?boom
              and ?t1.0 = "[EvOpenCtx, EvResolveKwargs]" and dep_ctx = "Some ?g"
              and ?m2.0 = ?boom and exc = "PyException ''RuntimeError''" and result = ?rf
              and before = "[mw_watch ''w'']" and mw = mw_bad_on_error and after = "[]"
              and hook = "\<lambda>m r e. Inl ?e",
            THEN conjunct2, THEN conjunct1]
    have "snd (run_task ex_world ?self boom_func ?boom) = Inl ?e
          \<and> snd (callback ex_world ?self ''boom'' False) = Inl ?e"
      by (rule mp)
    then show "snd (callback ex_world ?self ''boom'' False) = Inl ?e"
      by (rule conjunct2)
  }
  {
    let ?self = "ex_receiver [mw_watch ''w'', mw_bad_post]"
    have "pre_execute_loop (middlewares (broker ?self)) ?add = ([], Inr ?add)
        \<and> available_tasks (broker ?self) (task_name ?add) = Some add_func
        \<and> snd (run_task ex_world ?self add_func ?add) = Inr (?add, ?r)
        \<and> middlewares (broker ?self) = [mw_watch ''w''] @ mw_bad_post # []
        \<and> (\<forall>mw' \<in> set [mw_watch ''w'']. \<forall>h. post_execute mw' = Some h \<longrightarrow> h ?add ?r = Inr ())
        \<and> post_execute mw_bad_post = Some (\<lambda>m r. Inl ?e)
        \<and> (\<lambda>m r. Inl ?e) ?add ?r = Inl ?e"
      by (simp add: run_defs ex_defs)
    with hook_exception_propagation
           [OF loads(1) known(1), where e = ?e and w = ex_world and raise_err = False
              and ?t0.0 = "[]" and m = ?add and target = add_func and m' = ?add and r = ?r
              and before = "[mw_watch ''w'']" and mw = mw_bad_post and after = "[]"
              and hook' = "\<lambda>m r. Inl ?e",
            THEN conjunct2, THEN conjunct2, THEN conjunct1]
    show "snd (callback ex_world ?self ''add 2 3'' False) = Inl ?e"
      by (rule mp)
  }
  {
    let ?self = "ex_receiver [mw_watch ''w'', mw_bad_save]"
    have "pre_execute_loop (middlewares (broker ?self)) ?add = ([], Inr ?add)
        \<and> available_tasks (broker ?self) (task_name ?add) = Some add_func
        \<and> snd (run_task ex_world ?self add_func ?add) = Inr (?add, ?r)
        \<and> (\<forall>mw' \<in> set (middlewares (broker ?self)).
              \<forall>h. post_execute mw' = Some h \<longrightarrow> h ?add ?r = Inr ())
        \<and> set_result (broker ?self) (task_id ?add) ?r = Inr ()
        \<and> middlewares (broker ?self) = [mw_watch ''w''] @ mw_bad_save # []
        \<and> (\<forall>mw' \<in> set [mw_watch ''w'']. \<forall>h. post_save mw' = Some h \<longrightarrow> h ?add ?r = Inr ())
        \<and> post_save mw_bad_save = Some (\<lambda>m r. Inl ?e)
        \<and> (\<lambda>m r. Inl ?e) ?add ?r = Inl ?e"
      by (simp add: run_defs ex_defs)
    with hook_exception_propagation
           [OF loads(1) known(1), where e = ?e and w = ex_world and raise_err = True
              and ?t0.0 = "[]" and m = ?add and target = add_func and m' = ?add and r = ?r
              and before = "[mw_watch ''w'']" and mw = mw_bad_save and after = "[]"
              and hook' = "\<lambda>m r. Inl ?e",
            THEN conjunct2, THEN conjunct2, THEN conjunct2]
    have "snd (callback ex_world ?self ''add 2 3'' True) =
            (if is_Exception ?e \<and> \<not> True then Inr () else Inl ?e)"
      by (rule mp)
    then show "snd (callback ex_world ?self ''add 2 3'' True) = Inl ?e"
      by simp
  }
qed

section \<open>The injected arguments stay in the message\<close>

lemma pre_execute_loop_observed:
  "ev \<in> set (fst (pre_execute_loop mws m)) \<Longrightarrow> observed_message ev = None"
  by (induction mws arbitrary: m)
     (auto simp: io_defs fst_io_bind split: option.splits sum.splits)

lemma on_error_loop_observed:
  "ev \<in> set (fst (on_error_loop mws m r e)) \<Longrightarrow> observed_message ev = Some m"
  by (induction mws) (auto simp: io_defs fst_io_bind split: option.splits sum.splits)

lemma post_execute_loop_observed:
  "ev \<in> set (fst (post_execute_loop mws m r)) \<Longrightarrow> observed_message ev = Some m"
  by (induction mws) (auto simp: io_defs fst_io_bind split: option.splits sum.splits)

lemma post_save_loop_observed:
  "ev \<in> set (fst (post_save_loop mws m r)) \<Longrightarrow> observed_message ev = Some m"
  by (induction mws) (auto simp: io_defs fst_io_bind split: option.splits sum.splits)

lemma close_dep_ctx_observed:
  "ev \<in> set (fst (close_dep_ctx dep_ctx)) \<Longrightarrow> observed_message ev = None"
  by (cases dep_ctx) (auto simp: close_dep_ctx_def io_defs)

lemma finish_task_observed:
  assumes "ev \<in> set (fst (finish_task w self target dep_ctx m))"
  shows "observed_message ev \<in> {None, Some m}"
proof (cases "call target (args m) (kwargs m)")
  case (Inr v)
  with assms show ?thesis
    by (auto simp: finish_task_returned dest: close_dep_ctx_observed)
next
  case (Inl exc)
  show ?thesis
  proof (cases "is_Exception exc")
    case True
    with assms Inl show ?thesis
      by (auto simp: finish_task_caught split: sum.splits
               dest: close_dep_ctx_observed on_error_loop_observed)
  next
    case False
    with assms Inl show ?thesis
      by (auto simp: finish_task_escaped)
  qed
qed

lemma finish_task_message:
  assumes "snd (finish_task w self target dep_ctx m) = Inr (m', r)"
  shows "m' = m"
proof (cases "call target (args m) (kwargs m)")
  case (Inr v)
  with assms show ?thesis
    by (auto simp: finish_task_returned split: sum.splits)
next
  case (Inl exc)
  with assms show ?thesis
    by (cases "is_Exception exc")
       (auto simp: finish_task_caught finish_task_escaped split: sum.splits)
qed

lemma save_result_observed:
  assumes "ev \<in> set (fst (save_result self raise_err m r))"
  shows "observed_message ev \<in> {None, Some m}"
proof -
  obtain t x where loop: "post_save_loop (middlewares (broker self)) m r = (t, x)"
    by (cases "post_save_loop (middlewares (broker self)) m r")
  then have t: "\<And>ev. ev \<in> set t \<Longrightarrow> observed_message ev = Some m"
    using post_save_loop_observed [of _ "middlewares (broker self)" m r] by simp
  from assms loop show ?thesis
    by (cases "set_result (broker self) (task_id m) r"; cases x)
       (auto simp: save_result_def io_defs dest: t split: if_splits)
qed

lemma after_run_observed:
  assumes "ev \<in> set (fst (after_run self raise_err m r))"
  shows "observed_message ev \<in> {None, Some m}"
  using assms
  by (auto simp: after_run_def fst_io_bind split: sum.splits
           dest: post_execute_loop_observed save_result_observed)

text \<open>
  C10. When \<open>run_task\<close> resolves dependencies for a message, the message it works on
  from then on is \<open>m2\<close>, the (validated) message with the resolved values injected into
  its \<open>kwargs\<close>; \<open>m2\<close> carries each resolved name that the message did not have. After
  the body raised an \<open>Exception\<close> and the context closed, every \<open>on_error\<close> hook that is
  reached (the hooks before it returned) is invoked with \<open>m2\<close>. When \<open>run_task\<close> returns
  (the body returned, or it raised an \<open>Exception\<close> and the \<open>on_error\<close> hooks returned),
  the message its caller holds is \<open>m2\<close>, and in a \<open>callback\<close> that ran \<open>run_task\<close> on this
  message every \<open>post_execute\<close> hook that is reached is invoked with \<open>m2\<close>. No
  \<open>on_error\<close>, \<open>post_execute\<close> or \<open>post_save\<close> hook of such a run is given another
  message.
\<close>

theorem injected_kwargs_are_observed:
  assumes "checked_message w self message = ([], Inr m1)"
    and "dependency_graphs self (task_name message) = Some g"
    and "resolve_kwargs g m1 = Inr dep_kwargs"
    and "m2 = m1\<lparr>kwargs := inject_dep_kwargs dep_kwargs (kwargs m1)\<rparr>"
  shows "(\<forall>ev \<in> set (fst (run_task w self target message)). observed_message ev \<in> {None, Some m2})
       \<and> (\<forall>m r. snd (run_task w self target message) = Inr (m, r) \<longrightarrow> m = m2)
       \<and> (formatter_loads (broker self) raw = Inr m0
            \<and> available_tasks (broker self) (task_name m0) \<noteq> None
            \<and> pre_execute_loop (middlewares (broker self)) m0 = (t, Inr message)
            \<and> available_tasks (broker self) (task_name message) = Some target
          \<longrightarrow> (\<forall>ev \<in> set (fst (callback w self raw raise_err)).
                 observed_message ev \<in> {None, Some m2}))
       \<and> (\<forall>key v. map_of (kwargs m1) key = None \<and> map_of dep_kwargs key = Some v
            \<longrightarrow> map_of (kwargs m2) key = Some v)
       \<and> (call target (args m2) (kwargs m2) = Inl exc \<and> is_Exception exc
            \<and> close_ctx g = Inr ()
            \<and> result = \<lparr>is_err = True, log_slot = None, return_value = PyNone,
                          execution_time = time_stop w - time_start w\<rparr>
            \<and> middlewares (broker self) = before @ mw # after
            \<and> (\<forall>mw' \<in> set before. \<forall>h. on_error mw' = Some h \<longrightarrow> h m2 result exc = Inr ())
            \<and> on_error mw = Some hook
          \<longrightarrow> EvOnError (mw_name mw) m2 result exc \<in> set (fst (run_task w self target message)))
       \<and> ((call target (args m2) (kwargs m2) = Inr v
              \<and> res = \<lparr>is_err = False, log_slot = None, return_value = v,
                         execution_time = time_stop w - time_start w\<rparr>
             \<or> call target (args m2) (kwargs m2) = Inl exc \<and> is_Exception exc
              \<and> res = \<lparr>is_err = True, log_slot = None, return_value = PyNone,
                         execution_time = time_stop w - time_start w\<rparr>
              \<and> (\<forall>mw' \<in> set (middlewares (broker self)).
                    \<forall>h. on_error mw' = Some h \<longrightarrow> h m2 res exc = Inr ()))
            \<and> close_ctx g = Inr ()
          \<longrightarrow> snd (run_task w self target message) = Inr (m2, res))
       \<and> (formatter_loads (broker self) raw = Inr m0
            \<and> available_tasks (broker self) (task_name m0) \<noteq> None
            \<and> pre_execute_loop (middlewares (broker self)) m0 = (t, Inr message)
            \<and> available_tasks (broker self) (task_name message) = Some target
            \<and> snd (run_task w self target message) = Inr (m', r)
            \<and> middlewares (broker self) = before @ mw # after
            \<and> (\<forall>mw' \<in> set before. \<forall>h. post_execute mw' = Some h \<longrightarrow> h m2 r = Inr ())
            \<and> post_execute mw = Some hook'
          \<longrightarrow> m' = m2
              \<and> EvPostExecute (mw_name mw) m2 r \<in> set (fst (callback w self raw raise_err)))"
proof -
  have run: "run_task w self target message =
          ([EvOpenCtx, EvResolveKwargs] @ fst (finish_task w self target (Some g) m2),
           snd (finish_task w self target (Some g) m2))"
    using assms(1,2,4) by (simp add: run_task_phases resolve_dependencies_Some [OF assms(3)])
  have 1: "\<forall>ev \<in> set (fst (run_task w self target message)). observed_message ev \<in> {None, Some m2}"
    using finish_task_observed [of _ w self target "Some g" m2] by (auto simp: run)
  have 2: "\<forall>m r. snd (run_task w self target message) = Inr (m, r) \<longrightarrow> m = m2"
    using finish_task_message [of w self target "Some g" m2] by (auto simp: run)
  have cb_trace: "fst (callback w self raw raise_err) =
        EvLog Debug # EvLog Debug # t @ EvLog Info # fst (run_task w self target message)
          @ (case snd (run_task w self target message) of
               Inl e \<Rightarrow> []
             | Inr (m', r) \<Rightarrow> fst (after_run self raise_err m' r))"
    if "formatter_loads (broker self) raw = Inr m0"
      and "available_tasks (broker self) (task_name m0) \<noteq> None"
      and "pre_execute_loop (middlewares (broker self)) m0 = (t, Inr message)"
      and "available_tasks (broker self) (task_name message) = Some target"
    using that by (simp add: callback_dispatch dispatch_run)
  have 3: "\<forall>ev \<in> set (fst (callback w self raw raise_err)). observed_message ev \<in> {None, Some m2}"
    if h: "formatter_loads (broker self) raw = Inr m0
            \<and> available_tasks (broker self) (task_name m0) \<noteq> None
            \<and> pre_execute_loop (middlewares (broker self)) m0 = (t, Inr message)
            \<and> available_tasks (broker self) (task_name message) = Some target"
  proof
    fix ev
    assume ev: "ev \<in> set (fst (callback w self raw raise_err))"
    from h have cb: "fst (callback w self raw raise_err) =
        EvLog Debug # EvLog Debug # t @ EvLog Info # fst (run_task w self target message)
          @ (case snd (run_task w self target message) of
               Inl e \<Rightarrow> []
             | Inr (m', r) \<Rightarrow> fst (after_run self raise_err m' r))"
      by (intro cb_trace) blast+
    from h have pre: "\<And>ev. ev \<in> set t \<Longrightarrow> observed_message ev = None"
      using pre_execute_loop_observed [of _ "middlewares (broker self)" m0] by simp
    show "observed_message ev \<in> {None, Some m2}"
    proof (cases "snd (run_task w self target message)")
      case (Inl e)
      with ev cb 1 pre show ?thesis by auto
    next
      case (Inr p)
      obtain m' r where p: "p = (m', r)" by (cases p)
      with Inr 2 have "m' = m2" by simp
      with ev cb 1 pre Inr p after_run_observed [of ev self raise_err m2 r] show ?thesis
        by auto
    qed
  qed
  have 4: "\<forall>key v. map_of (kwargs m1) key = None \<and> map_of dep_kwargs key = Some v
            \<longrightarrow> map_of (kwargs m2) key = Some v"
    using assms(4) by (simp add: inject_adds)
  have 5: "EvOnError (mw_name mw) m2 result exc \<in> set (fst (run_task w self target message))"
    if h: "call target (args m2) (kwargs m2) = Inl exc \<and> is_Exception exc
            \<and> close_ctx g = Inr ()
            \<and> result = \<lparr>is_err = True, log_slot = None, return_value = PyNone,
                          execution_time = time_stop w - time_start w\<rparr>
            \<and> middlewares (broker self) = before @ mw # after
            \<and> (\<forall>mw' \<in> set before. \<forall>h. on_error mw' = Some h \<longrightarrow> h m2 result exc = Inr ())
            \<and> on_error mw = Some hook"
  proof -
    from h have body: "call target (args m2) (kwargs m2) = Inl exc" "is_Exception exc"
      and cl: "close_ctx g = Inr ()"
      and res: "result = \<lparr>is_err = True, log_slot = None, return_value = PyNone,
                           execution_time = time_stop w - time_start w\<rparr>"
      and mws: "middlewares (broker self) = before @ mw # after"
      and ok: "\<forall>mw' \<in> set before. \<forall>h. on_error mw' = Some h \<longrightarrow> h m2 result exc = Inr ()"
      and hk: "on_error mw = Some hook"
      by blast+
    have close: "snd (close_dep_ctx (Some g)) = Inr ()"
      by (simp add: close_dep_ctx_def io_defs cl)
    have mk: "make_result w PyNone (Some exc) = result"
      by (simp add: res make_result_def)
    have "EvOnError (mw_name mw) m2 result exc
            \<in> set (fst (on_error_loop (middlewares (broker self)) m2 result exc))"
      unfolding mws by (rule on_error_loop_hook_invoked [OF ok hk])
    then show ?thesis
      by (simp add: run finish_task_caught [OF body] close mk)
  qed
  have 6: "snd (run_task w self target message) = Inr (m2, res)"
    if h: "(call target (args m2) (kwargs m2) = Inr v
              \<and> res = \<lparr>is_err = False, log_slot = None, return_value = v,
                         execution_time = time_stop w - time_start w\<rparr>
             \<or> call target (args m2) (kwargs m2) = Inl exc \<and> is_Exception exc
              \<and> res = \<lparr>is_err = True, log_slot = None, return_value = PyNone,
                         execution_time = time_stop w - time_start w\<rparr>
              \<and> (\<forall>mw' \<in> set (middlewares (broker self)).
                    \<forall>h. on_error mw' = Some h \<longrightarrow> h m2 res exc = Inr ()))
            \<and> close_ctx g = Inr ()"
  proof -
    from h have close: "snd (close_dep_ctx (Some g)) = Inr ()"
      by (simp add: close_dep_ctx_def io_defs)
    from h consider
      (returned) "call target (args m2) (kwargs m2) = Inr v"
        "res = \<lparr>is_err = False, log_slot = None, return_value = v,
                 execution_time = time_stop w - time_start w\<rparr>"
      | (raised) "call target (args m2) (kwargs m2) = Inl exc" "is_Exception exc"
        "res = \<lparr>is_err = True, log_slot = None, return_value = PyNone,
                 execution_time = time_stop w - time_start w\<rparr>"
        "\<forall>mw' \<in> set (middlewares (broker self)).
           \<forall>h. on_error mw' = Some h \<longrightarrow> h m2 res exc = Inr ()"
      by blast
    then show ?thesis
    proof cases
      case returned
      then show ?thesis
        by (simp add: run finish_task_returned close make_result_def)
    next
      case raised
      have mk: "make_result w PyNone (Some exc) = res"
        by (simp add: raised(3) make_result_def)
      show ?thesis
        by (simp add: run finish_task_caught [OF raised(1,2)] close mk
              on_error_loop_all [OF raised(4)])
    qed
  qed
  have 7: "m' = m2 \<and> EvPostExecute (mw_name mw) m2 r \<in> set (fst (callback w self raw raise_err))"
    if h: "formatter_loads (broker self) raw = Inr m0
            \<and> available_tasks (broker self) (task_name m0) \<noteq> None
            \<and> pre_execute_loop (middlewares (broker self)) m0 = (t, Inr message)
            \<and> available_tasks (broker self) (task_name message) = Some target
            \<and> snd (run_task w self target message) = Inr (m', r)
            \<and> middlewares (broker self) = before @ mw # after
            \<and> (\<forall>mw' \<in> set before. \<forall>h. post_execute mw' = Some h \<longrightarrow> h m2 r = Inr ())
            \<and> post_execute mw = Some hook'"
  proof -
    from h have ret: "snd (run_task w self target message) = Inr (m', r)"
      and mws: "middlewares (broker self) = before @ mw # after"
      and ok: "\<forall>mw' \<in> set before. \<forall>h. post_execute mw' = Some h \<longrightarrow> h m2 r = Inr ()"
      and hk: "post_execute mw = Some hook'"
      by blast+
    from ret 2 have m': "m' = m2" by blast
    from h have cb: "fst (callback w self raw raise_err) =
        EvLog Debug # EvLog Debug # t @ EvLog Info # fst (run_task w self target message)
          @ (case snd (run_task w self target message) of
               Inl e \<Rightarrow> []
             | Inr (m', r) \<Rightarrow> fst (after_run self raise_err m' r))"
      by (intro cb_trace) blast+
    have "EvPostExecute (mw_name mw) m2 r
            \<in> set (fst (post_execute_loop (middlewares (broker self)) m2 r))"
      unfolding mws by (rule post_execute_loop_hook_invoked [OF ok hk])
    then have "EvPostExecute (mw_name mw) m2 r \<in> set (fst (after_run self raise_err m2 r))"
      by (simp add: after_run_def fst_io_bind)
    with m' show ?thesis
      by (simp add: cb ret)
  qed
  from 1 2 3 4 5 6 7 show ?thesis by blast
qed

theorem injected_kwargs_are_observed_witness:
  "snd (run_task ex_world (ex_receiver [mw_watch ''w'']) get_x_func
          (ex_message ''get_x'' [] [(''x'', PyInt 5)])) =
     Inr (ex_message ''get_x'' [] [(''x'', PyInt 5), (''session'', PyStr ''db'')],
          \<lparr>is_err = False, log_slot = None, return_value = PyInt 5, execution_time = 2\<rparr>)
   \<and> EvPostExecute ''w'' (ex_message ''get_x'' [] [(''x'', PyInt 5), (''session'', PyStr ''db'')])
         \<lparr>is_err = False, log_slot = None, return_value = PyInt 5, execution_time = 2\<rparr>
       \<in> set (fst (callback ex_world (ex_receiver [mw_watch ''w'']) ''get_x x=5'' False))
   \<and> EvOnError ''w'' (ex_message ''boom_db'' [] [(''session'', PyStr ''db'')])
         \<lparr>is_err = True, log_slot = None, return_value = PyNone, execution_time = 2\<rparr>
         (PyException ''RuntimeError'')
       \<in> set (fst (run_task ex_world (ex_receiver [mw_watch ''w'']) boom_func
                      (ex_message ''boom_db'' [] [])))"
proof -
  let ?self = "ex_receiver [mw_watch ''w'']"
  let ?m = "ex_message ''get_x'' [] [(''x'', PyInt 5)]"
  let ?m2 = "ex_message ''get_x'' [] [(''x'', PyInt 5), (''session'', PyStr ''db'')]"
  let ?deps = "[(''x'', PyInt 1), (''session'', PyStr ''db'')]"
  let ?g = "\<lparr>resolve_kwargs = (\<lambda>m. Inr ?deps), close_ctx = Inr ()\<rparr>"
  let ?ok = "\<lparr>is_err = False, log_slot = None, return_value = PyInt 5, execution_time = 2\<rparr>"
  let ?b = "ex_message ''boom_db'' [] []"
  let ?b2 = "ex_message ''boom_db'' [] [(''session'', PyStr ''db'')]"
  let ?bdeps = "[(''session'', PyStr ''db'')]"
  let ?bg = "\<lparr>resolve_kwargs = (\<lambda>m. Inr ?bdeps), close_ctx = Inr ()\<rparr>"
  let ?failed = "\<lparr>is_err = True, log_slot = None, return_value = PyNone, execution_time = 2\<rparr>"
  let ?exc = "PyException ''RuntimeError''"
  have clock: "time_stop ex_world - time_start ex_world = 2"
    by (simp add: ex_world_def)
  have a: "checked_message ex_world ?self ?m = ([], Inr ?m)"
    by (simp add: checked_message_def parse_params_def io_defs ex_defs)
  have b: "dependency_graphs ?self (task_name ?m) = Some ?g"
    by (simp add: ex_defs)
  have c: "resolve_kwargs ?g ?m = Inr ?deps"
    by simp
  have d: "?m2 = ?m\<lparr>kwargs := inject_dep_kwargs ?deps (kwargs ?m)\<rparr>"
    by (simp add: ex_message_def)
  note T = injected_kwargs_are_observed
             [OF a b c d, where target = get_x_func and raw = "''get_x x=5''" and ?m0.0 = ?m
                and t = "[]" and raise_err = False and v = "PyInt 5" and res = ?ok
                and m' = ?m2 and r = ?ok and before = "[]" and mw = "mw_watch ''w''"
                and after = "[]" and hook' = "\<lambda>m r. Inr ()"]
  have "call get_x_func (args ?m2) (kwargs ?m2) = Inr (PyInt 5)
          \<and> ?ok = \<lparr>is_err = False, log_slot = None, return_value = PyInt 5,
                     execution_time = time_stop ex_world - time_start ex_world\<rparr>"
    by (simp add: ex_defs)
  moreover have "close_ctx ?g = Inr ()"
    by simp
  ultimately have 1: "snd (run_task ex_world ?self get_x_func ?m) = Inr (?m2, ?ok)"
    using T by blast
  have "formatter_loads (broker ?self) ''get_x x=5'' = Inr ?m
          \<and> available_tasks (broker ?self) (task_name ?m) \<noteq> None
          \<and> pre_execute_loop (middlewares (broker ?self)) ?m = ([], Inr ?m)
          \<and> available_tasks (broker ?self) (task_name ?m) = Some get_x_func
          \<and> middlewares (broker ?self) = [] @ mw_watch ''w'' # []
          \<and> (\<forall>mw' \<in> set []. \<forall>h. post_execute mw' = Some h \<longrightarrow> h ?m2 ?ok = Inr ())
          \<and> post_execute (mw_watch ''w'') = Some (\<lambda>m r. Inr ())"
    by (simp add: io_defs ex_defs)
  with 1 T have "EvPostExecute (mw_name (mw_watch ''w'')) ?m2 ?ok
                   \<in> set (fst (callback ex_world ?self ''get_x x=5'' False))"
    by blast
  then have 2: "EvPostExecute ''w'' ?m2 ?ok
                   \<in> set (fst (callback ex_world ?self ''get_x x=5'' False))"
    by (simp add: mw_watch_def mw_plain_def)
  have a': "checked_message ex_world ?self ?b = ([], Inr ?b)"
    by (simp add: checked_message_def parse_params_def io_defs ex_defs)
  have b': "dependency_graphs ?self (task_name ?b) = Some ?bg"
    by (simp add: ex_defs)
  have c': "resolve_kwargs ?bg ?b = Inr ?bdeps"
    by simp
  have d': "?b2 = ?b\<lparr>kwargs := inject_dep_kwargs ?bdeps (kwargs ?b)\<rparr>"
    by (simp add: ex_message_def)
  note T' = injected_kwargs_are_observed
              [OF a' b' c' d', where target = boom_func and exc = ?exc and result = ?failed
                 and before = "[]" and mw = "mw_watch ''w''" and after = "[]"
                 and hook = "\<lambda>m r e. Inr ()"]
  have "call boom_func (args ?b2) (kwargs ?b2) = Inl ?exc \<and> is_Exception ?exc
          \<and> close_ctx ?bg = Inr ()
          \<and> ?failed = \<lparr>is_err = True, log_slot = None, return_value = PyNone,
                         execution_time = time_stop ex_world - time_start ex_world\<rparr>
          \<and> middlewares (broker ?self) = [] @ mw_watch ''w'' # []
          \<and> (\<forall>mw' \<in> set []. \<forall>h. on_error mw' = Some h \<longrightarrow> h ?b2 ?failed ?exc = Inr ())
          \<and> on_error (mw_watch ''w'') = Some (\<lambda>m r e. Inr ())"
    by (simp add: ex_defs)
  with T' have "EvOnError (mw_name (mw_watch ''w'')) ?b2 ?failed ?exc
                  \<in> set (fst (run_task ex_world ?self boom_func ?b))"
    by blast
  then have 3: "EvOnError ''w'' ?b2 ?failed ?exc
                  \<in> set (fst (run_task ex_world ?self boom_func ?b))"
    by (simp add: mw_watch_def mw_plain_def)
  from 1 2 3 show ?thesis by blast
qed

section \<open>Admission control\<close>

lemma listener_inv_start: "listener_inv k (listen_start (Some k))"
  by (simp add: listener_inv_def listen_start_def)

lemma listener_inv_step:
  assumes "listener_inv k s" and "listen_step s s'"
  shows "listener_inv k s'"
  using assms(2)
proof cases
  case admit
  from assms(1) have fin: "finite (unfinished s)" and sub: "unfinished s \<subseteq> {..<spawned s}"
    and sem: "sem_value s = Some (k - card (unfinished s))" and le: "card (unfinished s) \<le> k"
    by (simp_all add: listener_inv_def)
  from sub have fresh: "spawned s \<notin> unfinished s" by auto
  from admit(2) sem have lt: "card (unfinished s) < k" by simp
  from sub have sub': "insert (spawned s) (unfinished s) \<subseteq> {..<Suc (spawned s)}" by auto
  have rel: "\<forall>task. released s task =
               (if task < Suc (spawned s) \<and> task \<notin> insert (spawned s) (unfinished s) then 1 else 0)"
    using assms(1) by (auto simp: listener_inv_def)
  have out: "\<forall>task. (outcomes s task \<noteq> None) =
               (task < Suc (spawned s) \<and> task \<notin> insert (spawned s) (unfinished s))"
    using assms(1) by (auto simp: listener_inv_def less_Suc_eq)
  from assms(1) have t: "tasks s = unfinished s" by (simp add: listener_inv_def)
  show ?thesis
    unfolding admit(1) listener_inv_def spawn_unit_def
    using fin fresh lt sem sub' rel out t by simp
next
  case (finish task c)
  from assms(1) have fin: "finite (unfinished s)" and sub: "unfinished s \<subseteq> {..<spawned s}"
    and sem: "sem_value s = Some (k - card (unfinished s))" and le: "card (unfinished s) \<le> k"
    and t: "tasks s = unfinished s"
    by (simp_all add: listener_inv_def)
  from finish(2) fin have pos: "0 < card (unfinished s)" by (auto simp: card_gt_0_iff)
  from finish(2) fin have card: "card (unfinished s - {task}) = card (unfinished s) - 1" by simp
  from pos le have suc: "Suc (k - card (unfinished s)) = k - (card (unfinished s) - 1)" by arith
  from finish(2) sub have lt: "task < spawned s" by auto
  have rel: "\<forall>x. ((released s)(task := Suc (released s task))) x =
               (if x < spawned s \<and> x \<notin> unfinished s - {task} then 1 else 0)"
    using assms(1) finish(2) lt by (auto simp: listener_inv_def)
  have out: "\<forall>x. (((outcomes s)(task \<mapsto> c)) x \<noteq> None) =
               (x < spawned s \<and> x \<notin> unfinished s - {task})"
    using assms(1) finish(2) lt by (auto simp: listener_inv_def)
  from sub have sub': "unfinished s - {task} \<subseteq> {..<spawned s}" by auto
  show ?thesis
    unfolding finish(1) listener_inv_def task_cb_def Let_def
    using fin le sem t card suc rel out sub' by simp
qed

lemma listener_inv_reachable:
  assumes "listen_step\<^sup>*\<^sup>* (listen_start (Some k)) s"
  shows "listener_inv k s"
  using assms
  by (induction rule: rtranclp_induct) (auto intro: listener_inv_start listener_inv_step)

text \<open>
  C9. When \<open>max_async_tasks\<close> is a positive \<open>K\<close>, in every state the listener reaches the
  units in flight are at most \<open>K\<close>, the permits left are \<open>K\<close> minus their number, the set
  \<open>tasks\<close> holds exactly the units in flight, and the units that have ended (returned,
  raised or cancelled: they have an outcome) are exactly those for which a permit was
  released, once each, and they are no longer in \<open>tasks\<close>.
\<close>

theorem admission_is_bounded:
  assumes "0 < K"
    and "snd (init_sem (Some K)) = Inr sem0"
    and "listen_step\<^sup>*\<^sup>* (listen_start sem0) s"
  shows "finite (unfinished s) \<and> card (unfinished s) \<le> nat K
       \<and> sem_value s = Some (nat K - card (unfinished s))
       \<and> tasks s = unfinished s
       \<and> (\<forall>task. released s task = (if task < spawned s \<and> task \<notin> tasks s then 1 else 0))
       \<and> (\<forall>task. (outcomes s task \<noteq> None) = (task < spawned s \<and> task \<notin> tasks s))"
proof -
  from assms(1,2) have "sem0 = Some (nat K)"
    by (simp add: init_sem_def io_defs)
  with assms(3) have "listener_inv (nat K) s"
    by (simp add: listener_inv_reachable)
  then show ?thesis
    by (simp add: listener_inv_def)
qed

text \<open>With no permit left the listener admits nothing: the only step is the end of a unit.\<close>

lemma no_permit_no_admission:
  assumes "sem_value s = Some 0" and "listen_step s s'"
  shows "\<exists>task c. task \<in> unfinished s \<and>
           s' = task_cb task (s\<lparr>unfinished := unfinished s - {task},
                                 outcomes := (outcomes s)(task \<mapsto> c)\<rparr>)"
  using assms(2,1) by cases auto

text \<open>
  One permit, two messages: the first unit is admitted, it is cancelled, the second is
  admitted.
\<close>

theorem admission_is_bounded_witness:
  "card (unfinished
           (spawn_unit
              (task_cb 0
                 ((spawn_unit (listen_start (Some 1)))
                    \<lparr>unfinished := unfinished (spawn_unit (listen_start (Some 1))) - {0},
                     outcomes := (outcomes (spawn_unit (listen_start (Some 1))))(0 \<mapsto> Cancelled)\<rparr>))))
     \<le> nat 1
   \<and> released
       (spawn_unit
          (task_cb 0
             ((spawn_unit (listen_start (Some 1)))
                \<lparr>unfinished := unfinished (spawn_unit (listen_start (Some 1))) - {0},
                 outcomes := (outcomes (spawn_unit (listen_start (Some 1))))(0 \<mapsto> Cancelled)\<rparr>)))
       0 = 1
   \<and> sem_value (spawn_unit (listen_start (Some 1))) = Some 0"
proof -
  let ?s0 = "listen_start (Some 1)"
  let ?s1 = "spawn_unit ?s0"
  let ?s2 = "task_cb 0 (?s1\<lparr>unfinished := unfinished ?s1 - {0},
                             outcomes := (outcomes ?s1)(0 \<mapsto> Cancelled)\<rparr>)"
  let ?s3 = "spawn_unit ?s2"
  have a: "(0::int) < 1" by simp
  have b: "snd (init_sem (Some 1)) = Inr (Some 1)"
    by (simp add: init_sem_def io_defs)
  have 1: "listen_step ?s0 ?s1"
    by (rule listen_step.admit) (simp add: listen_start_def)
  have 2: "listen_step ?s1 ?s2"
    by (rule listen_step.finish) (simp add: spawn_unit_def listen_start_def)
  have 3: "listen_step ?s2 ?s3"
    by (rule listen_step.admit) (simp add: task_cb_def spawn_unit_def listen_start_def)
  from 1 have r1: "listen_step\<^sup>*\<^sup>* ?s0 ?s1" by (rule r_into_rtranclp)
  from r1 2 have "listen_step\<^sup>*\<^sup>* ?s0 ?s2" by (rule rtranclp.rtrancl_into_rtrancl)
  from this 3 have r3: "listen_step\<^sup>*\<^sup>* ?s0 ?s3" by (rule rtranclp.rtrancl_into_rtrancl)
  have t3: "spawned ?s3 = 2" "tasks ?s3 = {1}"
    by (simp_all add: task_cb_def spawn_unit_def listen_start_def)
  from admission_is_bounded [OF a b r3]
  have "card (unfinished ?s3) \<le> nat 1"
    and "\<forall>task. released ?s3 task = (if task < spawned ?s3 \<and> task \<notin> tasks ?s3 then 1 else 0)"
    by blast+
  then have "card (unfinished ?s3) \<le> nat 1" and "released ?s3 0 = 1"
    unfolding t3 by simp_all
  moreover from admission_is_bounded [OF a b r1]
  have "sem_value ?s1 = Some (nat 1 - card (unfinished ?s1))"
    by blast
  then have "sem_value ?s1 = Some 0"
    by (simp add: spawn_unit_def listen_start_def)
  ultimately show ?thesis by blast
qed

end
